theory Spec2Isabelle
  imports Main "HOL-Library.Word" "HOL-Library.Sublist"
begin

section \<open>Paths\<close>

text \<open>
  A \<open>pathlib.Path\<close> is the list of its components below the file-system root.
  \<open>parts\<close> splits a string at \<open>/\<close>, dropping empty and \<open>.\<close> components as
  pathlib does; \<open>joinpath p s\<close> is the operator \<open>p / s\<close> (an absolute right operand
  replaces the left one); \<open>name_of s\<close> is \<open>Path(s).name\<close>; \<open>parent\<close> is
  \<open>Path.parent\<close> (the parent of the root is the root).
\<close>

type_synonym path = "string list"

fun splitc :: "char \<Rightarrow> string \<Rightarrow> string list" where
  "splitc c [] = [[]]"
| "splitc c (x # xs) =
     (if x = c then [] # splitc c xs
      else (case splitc c xs of [] \<Rightarrow> [[x]] | u # us \<Rightarrow> (x # u) # us))"

definition parts :: "string \<Rightarrow> string list" where
  "parts s = filter (\<lambda>u. u \<noteq> [] \<and> u \<noteq> ''.'') (splitc (CHR ''/'') s)"

definition joinpath :: "path \<Rightarrow> string \<Rightarrow> path" where
  "joinpath p s = (if s \<noteq> [] \<and> hd s = CHR ''/'' then parts s else p @ parts s)"

definition name_of :: "string \<Rightarrow> string" where
  "name_of s = (case parts s of [] \<Rightarrow> [] | u # us \<Rightarrow> last (u # us))"

definition parent :: "path \<Rightarrow> path" where
  "parent p = butlast p"

section \<open>Images\<close>

text \<open>
  A Pillow image has a mode string, a size (width, height) and pixel data. The pixel data
  is a function from a coordinate and a band index to a byte (band 3 of an \<open>RGBA\<close> image
  is its alpha channel; an \<open>L\<close> image has band 0 only). \<open>Image.open\<close> is lazy: it
  identifies the file and reads the header (mode and size); the pixel data is decoded by
  the first operation that calls \<open>load()\<close>, and that is where a truncated or corrupt
  pixel stream raises. \<open>data = None\<close> is an image whose pixel data cannot be decoded.
\<close>

type_synonym raster = "nat \<times> nat \<Rightarrow> nat \<Rightarrow> 8 word"

record image =
  mode :: string
  size_im :: "nat \<times> nat"
  data :: "raster option"

datatype resampling = NEAREST | BOX | BILINEAR | HAMMING | BICUBIC | LANCZOS

text \<open>
  The numeric kernels of Pillow are not part of this repository and are parameters of the
  model: \<open>convert_kernel P target m sz r\<close> is the pixel data of \<open>convert(target)\<close> on an
  image of mode \<open>m\<close>, size \<open>sz\<close> and data \<open>r\<close> (\<open>None\<close>: the conversion is not
  supported, a \<open>ValueError\<close>); \<open>resize_kernel P f sz' m sz r\<close> is the pixel data of
  \<open>resize(sz', f)\<close>.
\<close>

record pillow =
  convert_kernel :: "string \<Rightarrow> string \<Rightarrow> nat \<times> nat \<Rightarrow> raster \<Rightarrow> raster option"
  resize_kernel :: "resampling \<Rightarrow> nat \<times> nat \<Rightarrow> string \<Rightarrow> nat \<times> nat \<Rightarrow> raster \<Rightarrow> raster"

section \<open>The world: file system, object heap, standard output\<close>

datatype error =
    FileNotFoundError
  | FileExistsError
  | NotADirectoryError
  | IsADirectoryError
  | SameFileError
  | UnidentifiedImageError
  | DecodeError
  | ValueError

text \<open>
  A file holds either an encoded image (its format and what it decodes to) or other data.
  Every file carries metadata \<open>'st\<close>: the permission bits, times and flags that
  \<open>shutil.copystat\<close> carries from one file to another.
\<close>

datatype content = Encoded string image | Text string

datatype 'st node = Dir | File content 'st

text \<open>
  Standard output, one constructor for each \<open>print\<close> call of the program, with the
  values its f-string formats: \<open>Created p n\<close> is the line "Created p (n x n)" after a
  saved icon, \<open>Copied p\<close> and \<open>Source_not_found p\<close> are the success and the warning
  line of \<open>copy_xml_resources\<close>, \<open>Rule60\<close> is the line of sixty equals signs,
  \<open>Blank\<close> an empty line.
\<close>

datatype line =
    Blank
  | Loading_source_icon path
  | ERROR_Could_not_load path error
  | Source_icon_size "nat \<times> nat"
  | Created path nat
  | SUCCESS_All_Android_icons_generated
  | Copying_XML_resources
  | Copied path
  | Source_not_found path
  | Rule60
  | Android_Icon_Resource_Generator
  | ERROR_Source_icon_not_found path
  | ERROR_Android_res_directory_not_found path
  | Please_ensure_android_directory
  | You_may_need_to_run
  | Note_manual_fix_directory_not_found
  | XML_resources_not_copied
  | COMPLETE
  | Next_steps
  | Step_cd_android
  | Step_gradlew_clean
  | Step_gradlew_assembleRelease

text \<open>
  \<open>fs\<close> maps a path to its node; \<open>heap\<close> holds the Pillow image objects, a reference
  being an index into it; \<open>stdout\<close> is what has been printed; \<open>new_stat\<close> is the
  metadata the operating system gives a file written during this run.
\<close>

record 'st world =
  fs :: "path \<Rightarrow> 'st node option"
  heap :: "image list"
  stdout :: "line list"
  new_stat :: 'st

definition print :: "line \<Rightarrow> 'st world \<Rightarrow> 'st world" where
  "print l w = w\<lparr>stdout := stdout w @ [l]\<rparr>"

text \<open>Several \<open>print\<close> calls in a row.\<close>

definition prints :: "line list \<Rightarrow> 'st world \<Rightarrow> 'st world" where
  "prints ls w = foldl (\<lambda>w' l. print l w') w ls"

definition lookup :: "(path \<Rightarrow> 'st node option) \<Rightarrow> path \<Rightarrow> 'st node option" where
  "lookup f p = (if p = [] then Some Dir else f p)"

definition exists :: "path \<Rightarrow> 'st world \<Rightarrow> bool" where
  "exists p w = (lookup (fs w) p \<noteq> None)"

definition is_dir :: "path \<Rightarrow> 'st world \<Rightarrow> bool" where
  "is_dir p w = (lookup (fs w) p = Some Dir)"

text \<open>\<open>os.mkdir\<close>: one directory, whose parent must be a directory.\<close>

definition os_mkdir :: "path \<Rightarrow> 'st world \<Rightarrow> error + 'st world" where
  "os_mkdir p w =
     (case lookup (fs w) p of
        Some n \<Rightarrow> Inl FileExistsError
      | None \<Rightarrow>
         (case lookup (fs w) (parent p) of
            None \<Rightarrow> Inl FileNotFoundError
          | Some (File c st) \<Rightarrow> Inl NotADirectoryError
          | Some Dir \<Rightarrow> Inr (w\<lparr>fs := (fs w)(p \<mapsto> Dir)\<rparr>)))"

text \<open>
  \<open>Path.mkdir(parents=True, exist_ok=True)\<close>, as pathlib writes it: try \<open>os.mkdir\<close>;
  on \<open>FileNotFoundError\<close> create the parent the same way and then the directory itself;
  any other \<open>OSError\<close> is swallowed exactly when the path is a directory.
\<close>

function mkdir :: "path \<Rightarrow> 'st world \<Rightarrow> error + 'st world" where
  "mkdir p w =
     (case os_mkdir p w of
        Inr w' \<Rightarrow> Inr w'
      | Inl e \<Rightarrow>
         (if e = FileNotFoundError then
            (if p = [] then Inl e
             else (case mkdir (parent p) w of
                     Inl e' \<Rightarrow> Inl e'
                   | Inr w1 \<Rightarrow>
                      (case os_mkdir p w1 of
                         Inr w2 \<Rightarrow> Inr w2
                       | Inl e2 \<Rightarrow>
                          (if e2 \<noteq> FileNotFoundError \<and> is_dir p w1 then Inr w1
                           else Inl e2))))
          else if is_dir p w then Inr w else Inl e))"
  by pat_completeness auto
termination
  by (relation "measure (\<lambda>(p, w). length p)") (auto simp: parent_def)

declare mkdir.simps [simp del]

text \<open>
  Opening a path for writing and storing \<open>c\<close> in it: a directory cannot be opened, the
  parent must be a directory, an existing file is overwritten.
\<close>

definition write_file :: "path \<Rightarrow> content \<Rightarrow> 'st world \<Rightarrow> error + 'st world" where
  "write_file p c w =
     (case lookup (fs w) p of
        Some Dir \<Rightarrow> Inl IsADirectoryError
      | _ \<Rightarrow>
         (case lookup (fs w) (parent p) of
            None \<Rightarrow> Inl FileNotFoundError
          | Some (File c' st) \<Rightarrow> Inl NotADirectoryError
          | Some Dir \<Rightarrow> Inr (w\<lparr>fs := (fs w)(p \<mapsto> File c (new_stat w))\<rparr>)))"

section \<open>Pillow operations on heap objects\<close>

definition alloc :: "image \<Rightarrow> 'st world \<Rightarrow> nat \<times> 'st world" where
  "alloc im w = (length (heap w), w\<lparr>heap := heap w @ [im]\<rparr>)"

definition store :: "nat \<Rightarrow> image \<Rightarrow> 'st world \<Rightarrow> 'st world" where
  "store r im w = w\<lparr>heap := (heap w)[r := im]\<rparr>"

definition bands :: "8 word list \<Rightarrow> nat \<Rightarrow> 8 word" where
  "bands c b = (if b < length c then c ! b else 0)"

text \<open>\<open>Image.new(mode, size, color)\<close>: a new object, every pixel the given colour.\<close>

definition Image_new :: "string \<Rightarrow> nat \<times> nat \<Rightarrow> (nat \<Rightarrow> 8 word) \<Rightarrow> 'st world \<Rightarrow> nat \<times> 'st world" where
  "Image_new m sz color w = alloc \<lparr>mode = m, size_im = sz, data = Some (\<lambda>xy. color)\<rparr> w"

text \<open>\<open>Image.open(path)\<close>: identifies the file; the pixel data stays undecoded.\<close>

definition Image_open :: "path \<Rightarrow> 'st world \<Rightarrow> (error + nat) \<times> 'st world" where
  "Image_open p w =
     (case lookup (fs w) p of
        None \<Rightarrow> (Inl FileNotFoundError, w)
      | Some Dir \<Rightarrow> (Inl IsADirectoryError, w)
      | Some (File c st) \<Rightarrow>
         (case c of
            Text t \<Rightarrow> (Inl UnidentifiedImageError, w)
          | Encoded fmt im \<Rightarrow> (case alloc im w of (r, w') \<Rightarrow> (Inr r, w'))))"

text \<open>\<open>im.convert(target)\<close>: loads the image, returns a converted copy.\<close>

definition Image_convert :: "pillow \<Rightarrow> string \<Rightarrow> nat \<Rightarrow> 'st world \<Rightarrow> (error + nat) \<times> 'st world" where
  "Image_convert P target r w =
     (let im = heap w ! r in
      case data im of
        None \<Rightarrow> (Inl DecodeError, w)
      | Some px \<Rightarrow>
         (case convert_kernel P target (mode im) (size_im im) px of
            None \<Rightarrow> (Inl ValueError, w)
          | Some px' \<Rightarrow>
             (case alloc \<lparr>mode = target, size_im = size_im im, data = Some px'\<rparr> w of
                (r', w') \<Rightarrow> (Inr r', w'))))"

text \<open>\<open>im.resize(size, resample)\<close>: loads the image, returns a resized copy of the same mode.\<close>

definition Image_resize :: "pillow \<Rightarrow> nat \<Rightarrow> nat \<times> nat \<Rightarrow> resampling \<Rightarrow> 'st world \<Rightarrow> (error + nat) \<times> 'st world" where
  "Image_resize P r sz f w =
     (let im = heap w ! r in
      case data im of
        None \<Rightarrow> (Inl DecodeError, w)
      | Some px \<Rightarrow>
         (case alloc \<lparr>mode = mode im, size_im = sz,
                      data = Some (resize_kernel P f sz (mode im) (size_im im) px)\<rparr> w of
            (r', w') \<Rightarrow> (Inr r', w')))"

text \<open>\<open>im.save(path, fmt)\<close>: loads the image and writes its encoding.\<close>

definition Image_save :: "nat \<Rightarrow> path \<Rightarrow> string \<Rightarrow> 'st world \<Rightarrow> (error + unit) \<times> 'st world" where
  "Image_save r p fmt w =
     (let im = heap w ! r in
      case data im of
        None \<Rightarrow> (Inl DecodeError, w)
      | Some px \<Rightarrow>
         (case write_file p (Encoded fmt im) w of
            Inl e \<Rightarrow> (Inl e, w)
          | Inr w' \<Rightarrow> (Inr (), w')))"

text \<open>
  \<open>ImageDraw.Draw(im).ellipse(box, fill=v)\<close> is Pillow's, not this repository's; it is
  modelled after Pillow's rasteriser (\<open>ellipseNew\<close> and \<open>quarter_next\<close> in \<open>Draw.c\<close>).
  The corners of the box \<open>(x0, y0, x1, y1)\<close> are pixels, both inclusive. With
  \<open>a = x1 - x0\<close> and \<open>b = y1 - y0\<close>, the rasteriser works in coordinates doubled and centred
  on the box, where pixel \<open>(x, y)\<close> is the point \<open>(2 * (x - x0) - a, 2 * (y - y0) - b)\<close>.
  It walks the outline of one quarter from \<open>(a, b mod 2)\<close> to \<open>(a mod 2, b)\<close>:
  \<open>quarter_next\<close> steps to the one of the neighbours \<open>(cx, cy + 2)\<close>, \<open>(cx - 2, cy + 2)\<close>,
  \<open>(cx - 2, cy)\<close> where \<open>quarter_delta\<close>, the deviation from the curve, is least (the
  earlier one on a tie; only the first when \<open>cx \<le> 1\<close>). The C code computes in 32- and
  64-bit integers; the model uses unbounded ones (nothing overflows at icon sizes).
\<close>

definition quarter_delta :: "nat \<Rightarrow> nat \<Rightarrow> nat \<Rightarrow> nat \<Rightarrow> int" where
  "quarter_delta a b x y =
     \<bar>(int a)\<^sup>2 * (int y)\<^sup>2 + (int b)\<^sup>2 * (int x)\<^sup>2 - (int a)\<^sup>2 * (int b)\<^sup>2\<bar>"

definition quarter_next :: "nat \<Rightarrow> nat \<Rightarrow> nat \<times> nat \<Rightarrow> nat \<times> nat" where
  "quarter_next a b p =
     (case p of (cx, cy) \<Rightarrow>
      let ndelta = quarter_delta a b cx (cy + 2) in
      if 1 < cx then
        (let newdelta = quarter_delta a b (cx - 2) (cy + 2);
             n = (if newdelta < ndelta then (cx - 2, cy + 2) else (cx, cy + 2));
             ndelta' = (if newdelta < ndelta then newdelta else ndelta);
             newdelta' = quarter_delta a b (cx - 2) cy
         in if newdelta' < ndelta' then (cx - 2, cy) else n)
      else (cx, cy + 2))"

text \<open>
  The points of the walk that starts at \<open>p\<close>, up to its last point \<open>(a mod 2, b)\<close>. The
  C code tests for the last point only; the test \<open>b < snd p\<close> is added for the termination
  proof and never holds on the walk from \<open>(a, b mod 2)\<close> (lemma \<open>quarter_points_ends\<close>).
\<close>

function quarter_points :: "nat \<Rightarrow> nat \<Rightarrow> nat \<times> nat \<Rightarrow> (nat \<times> nat) list" where
  "quarter_points a b p =
     (if p = (a mod 2, b) \<or> b < snd p then [p]
      else p # quarter_points a b (quarter_next a b p))"
  by pat_completeness auto
termination
  by (relation "measure (\<lambda>(a, b, p). fst p + (b + 2 - snd p))")
     (auto simp: quarter_next_def Let_def split: prod.splits if_splits)

declare quarter_points.simps [simp del]

text \<open>
  Filling (\<open>ellipse_next\<close> with the width \<open>a + b\<close> that \<open>ellipseNew\<close> sets for a fill):
  nothing is drawn when \<open>a < 0\<close>, \<open>b < 0\<close> or \<open>a + b < 1\<close>; otherwise each row \<open>cy\<close> of the
  walk is drawn from \<open>- cx\<close> to \<open>cx\<close>, for the first (the largest) \<open>cx\<close> the walk has in
  that row, and so is the row \<open>- cy\<close>. \<open>row_right a b y\<close> is that \<open>cx\<close>;
  \<open>ellipse_filled box (x, y)\<close> says that pixel \<open>(x, y)\<close> is drawn.
\<close>

definition row_right :: "nat \<Rightarrow> nat \<Rightarrow> nat \<Rightarrow> nat option" where
  "row_right a b y = map_option fst (find (\<lambda>p. snd p = y) (quarter_points a b (a, b mod 2)))"

definition ellipse_filled :: "int \<times> int \<times> int \<times> int \<Rightarrow> nat \<times> nat \<Rightarrow> bool" where
  "ellipse_filled box xy =
     (case box of (x0, y0, x1, y1) \<Rightarrow>
      case xy of (x, y) \<Rightarrow>
        if x1 - x0 < 0 \<or> y1 - y0 < 0 \<or> (x1 - x0) + (y1 - y0) < 1 then False
        else (case row_right (nat (x1 - x0)) (nat (y1 - y0))
                     (nat \<bar>2 * (int y - y0) - (y1 - y0)\<bar>) of
                None \<Rightarrow> False
              | Some r \<Rightarrow> \<bar>2 * (int x - x0) - (x1 - x0)\<bar> \<le> int r))"

definition ellipse_px :: "int \<times> int \<times> int \<times> int \<Rightarrow> 8 word \<Rightarrow> raster \<Rightarrow> raster" where
  "ellipse_px box fill px = (\<lambda>xy b. if ellipse_filled box xy \<and> b = 0 then fill else px xy b)"

text \<open>
  \<open>ImageDraw.Draw(im).ellipse(box, fill=v)\<close>: draws into the object itself; the pixels
  drawn get the fill value in band 0, the others keep their value.
\<close>

definition ImageDraw_ellipse :: "nat \<Rightarrow> int \<times> int \<times> int \<times> int \<Rightarrow> 8 word \<Rightarrow> 'st world \<Rightarrow> 'st world" where
  "ImageDraw_ellipse r box fill w =
     (let im = heap w ! r in
      store r (im\<lparr>data := map_option (ellipse_px box fill) (data im)\<rparr>) w)"

text \<open>
  \<open>dst.paste(src, (x0, y0))\<close> without a mask: loads \<open>src\<close>; when the modes differ (and
  \<open>dst\<close> is not an \<open>RGB\<close> image receiving one with alpha) \<open>src\<close> is first converted to the
  mode of \<open>dst\<close>, into a temporary object; then the pixels of \<open>dst\<close> under the pasted
  rectangle are replaced, in place.
\<close>

definition paste_px :: "nat \<times> nat \<Rightarrow> nat \<times> nat \<Rightarrow> raster \<Rightarrow> raster \<Rightarrow> raster" where
  "paste_px xy sz spx dpx =
     (\<lambda>(x, y) b.
        if fst xy \<le> x \<and> x < fst xy + fst sz \<and> snd xy \<le> y \<and> y < snd xy + snd sz
        then spx (x - fst xy, y - snd xy) b else dpx (x, y) b)"

definition Image_paste :: "pillow \<Rightarrow> nat \<Rightarrow> nat \<Rightarrow> nat \<times> nat \<Rightarrow> 'st world \<Rightarrow> (error + unit) \<times> 'st world" where
  "Image_paste P dst src xy w =
     (case data (heap w ! src) of
        None \<Rightarrow> (Inl DecodeError, w)
      | Some px0 \<Rightarrow>
         (case (if mode (heap w ! dst) \<noteq> mode (heap w ! src) \<and>
                   (mode (heap w ! dst) \<noteq> ''RGB'' \<or>
                    mode (heap w ! src) \<notin> {''LA'', ''RGBA'', ''RGBa''})
                then Image_convert P (mode (heap w ! dst)) src w
                else (Inr src, w)) of
            (Inl e, w1) \<Rightarrow> (Inl e, w1)
          | (Inr s, w1) \<Rightarrow>
             (let sim = heap w1 ! s; dim = heap w1 ! dst in
              case data sim of
                None \<Rightarrow> (Inl DecodeError, w1)
              | Some spx \<Rightarrow>
                 (Inr (),
                  store dst (dim\<lparr>data := map_option (paste_px xy (size_im sim) spx)
                                              (data dim)\<rparr>) w1))))"

text \<open>
  \<open>dst.putalpha(mask)\<close> with an image as mask: the mask must be of mode \<open>1\<close> or \<open>L\<close>
  and of the size of \<open>dst\<close>; its band 0 overwrites the alpha band of \<open>dst\<close>, in place.
  The program calls it on a new \<open>RGBA\<close> image with an \<open>L\<close> mask only; Pillow's
  promotion of an image without alpha band and its conversion of a \<open>1\<close> mask are not
  modelled, the model raises there.
\<close>

definition alpha_band :: "string \<Rightarrow> nat option" where
  "alpha_band m = (if m = ''RGBA'' then Some 3 else if m = ''LA'' \<or> m = ''PA'' then Some 1 else None)"

definition putband_px :: "nat \<Rightarrow> raster \<Rightarrow> raster \<Rightarrow> raster" where
  "putband_px a mpx dpx = (\<lambda>xy b. if b = a then mpx xy 0 else dpx xy b)"

definition Image_putalpha :: "nat \<Rightarrow> nat \<Rightarrow> 'st world \<Rightarrow> (error + unit) \<times> 'st world" where
  "Image_putalpha dst mask_im w =
     (let dim = heap w ! dst; mim = heap w ! mask_im in
      case alpha_band (mode dim) of
        None \<Rightarrow> (Inl ValueError, w)
      | Some a \<Rightarrow>
         (if mode mim \<noteq> ''L'' then (Inl ValueError, w)
          else case data mim of
            None \<Rightarrow> (Inl DecodeError, w)
          | Some mpx \<Rightarrow>
             (if size_im mim \<noteq> size_im dim then (Inl ValueError, w)
              else (Inr (),
                    store dst (dim\<lparr>data := map_option (putband_px a mpx) (data dim)\<rparr>)
                      w))))"

section \<open>The program\<close>

text \<open>\<open>create_round_icon(square_image)\<close>, lines 19 to 29.\<close>

definition create_round_icon :: "pillow \<Rightarrow> nat \<Rightarrow> 'st world \<Rightarrow> (error + nat) \<times> 'st world" where
  "create_round_icon P square_image w =
     (let sz = size_im (heap w ! square_image) in
      case Image_new ''L'' sz (bands [0]) w of (mask_im, w1) \<Rightarrow>
      let w2 = ImageDraw_ellipse mask_im (0, 0, int (fst sz), int (snd sz)) 255 w1 in
      case Image_new ''RGBA'' sz (bands [0, 0, 0, 0]) w2 of (rounded, w3) \<Rightarrow>
      case Image_paste P rounded square_image (0, 0) w3 of
        (Inl e, w4) \<Rightarrow> (Inl e, w4)
      | (Inr u, w4) \<Rightarrow>
         (case Image_putalpha rounded mask_im w4 of
            (Inl e, w5) \<Rightarrow> (Inl e, w5)
          | (Inr u', w5) \<Rightarrow> (Inr rounded, w5)))"

text \<open>The density table of \<open>generate_icons\<close>, lines 36 to 42, in insertion order.\<close>

definition densities :: "(string \<times> nat) list" where
  "densities =
     [(''mdpi'', 48), (''hdpi'', 72), (''xhdpi'', 96), (''xxhdpi'', 144), (''xxxhdpi'', 192)]"

text \<open>The directory name \<open>f'mipmap-{density}'\<close> of line 58.\<close>

definition mipmap :: "string \<Rightarrow> string" where
  "mipmap density = ''mipmap-'' @ density"

text \<open>The body of the loop of \<open>generate_icons\<close>, lines 58 to 71.\<close>

definition icon_body :: "pillow \<Rightarrow> nat \<Rightarrow> path \<Rightarrow> string \<times> nat \<Rightarrow> 'st world \<Rightarrow> (error + unit) \<times> 'st world" where
  "icon_body P source_img output_base_path ds w =
     (case ds of (density, sz) \<Rightarrow>
      let mipmap_dir = joinpath output_base_path (mipmap density) in
      case mkdir mipmap_dir w of
        Inl e \<Rightarrow> (Inl e, w)
      | Inr w1 \<Rightarrow>
         (case Image_resize P source_img (sz, sz) LANCZOS w1 of
            (Inl e, w2) \<Rightarrow> (Inl e, w2)
          | (Inr square_resized, w2) \<Rightarrow>
             (let square_path = joinpath mipmap_dir ''ic_launcher.png'' in
              case Image_save square_resized square_path ''PNG'' w2 of
                (Inl e, w3) \<Rightarrow> (Inl e, w3)
              | (Inr u, w3) \<Rightarrow>
                 (let w4 = print (Created square_path sz) w3 in
                  case create_round_icon P square_resized w4 of
                    (Inl e, w5) \<Rightarrow> (Inl e, w5)
                  | (Inr round_resized, w5) \<Rightarrow>
                     (let round_path = joinpath mipmap_dir ''ic_launcher_round.png'' in
                      case Image_save round_resized round_path ''PNG'' w5 of
                        (Inl e, w6) \<Rightarrow> (Inl e, w6)
                      | (Inr u', w6) \<Rightarrow> (Inr (), print (Created round_path sz) w6))))))"

text \<open>The loop of line 57: the entries in order; an exception ends it.\<close>

fun icon_loop :: "pillow \<Rightarrow> nat \<Rightarrow> path \<Rightarrow> (string \<times> nat) list \<Rightarrow> 'st world \<Rightarrow> (error + unit) \<times> 'st world" where
  "icon_loop P source_img output_base_path [] w = (Inr (), w)"
| "icon_loop P source_img output_base_path (ds # rest) w =
     (case icon_body P source_img output_base_path ds w of
        (Inl e, w') \<Rightarrow> (Inl e, w')
      | (Inr u, w') \<Rightarrow> icon_loop P source_img output_base_path rest w')"

text \<open>
  The \<open>try\<close> block of lines 45 to 49: open the file and, when its mode is not \<open>RGBA\<close>,
  convert it.
\<close>

definition load_source :: "pillow \<Rightarrow> path \<Rightarrow> 'st world \<Rightarrow> (error + nat) \<times> 'st world" where
  "load_source P source_icon_path w =
     (case Image_open source_icon_path w of
        (Inl e, w1) \<Rightarrow> (Inl e, w1)
      | (Inr source_img, w1) \<Rightarrow>
         (if mode (heap w1 ! source_img) \<noteq> ''RGBA''
          then Image_convert P ''RGBA'' source_img w1
          else (Inr source_img, w1)))"

text \<open>
  \<open>generate_icons(source_icon_path, output_base_path)\<close>, lines 32 to 75. The result is
  \<open>Inr\<close> of the returned boolean, or \<open>Inl\<close> of the exception that leaves the function.
\<close>

definition generate_icons :: "pillow \<Rightarrow> path \<Rightarrow> path \<Rightarrow> 'st world \<Rightarrow> (error + bool) \<times> 'st world" where
  "generate_icons P source_icon_path output_base_path w =
     (let w0 = print (Loading_source_icon source_icon_path) w in
      case load_source P source_icon_path w0 of
        (Inl e, w1) \<Rightarrow> (Inr False, print (ERROR_Could_not_load source_icon_path e) w1)
      | (Inr source_img, w1) \<Rightarrow>
         (let w2 = print Blank (print (Source_icon_size (size_im (heap w1 ! source_img))) w1) in
          case icon_loop P source_img output_base_path densities w2 of
            (Inl e, w3) \<Rightarrow> (Inl e, w3)
          | (Inr u, w3) \<Rightarrow>
             (Inr True, print SUCCESS_All_Android_icons_generated (print Blank w3))))"

text \<open>
  \<open>shutil.copy2(src, dst)\<close>: a destination that is a directory stands for the file of the
  source's name in it; copying a file onto itself raises; the source is opened for reading
  and the destination for writing; data and metadata of the source go to the destination.
\<close>

definition copy2 :: "path \<Rightarrow> path \<Rightarrow> 'st world \<Rightarrow> (error + unit) \<times> 'st world" where
  "copy2 src dst w =
     (let dst' = (if is_dir dst w \<and> src \<noteq> [] then dst @ [last src] else dst) in
      if src = dst' \<and> exists src w then (Inl SameFileError, w)
      else case lookup (fs w) src of
        None \<Rightarrow> (Inl FileNotFoundError, w)
      | Some Dir \<Rightarrow> (Inl IsADirectoryError, w)
      | Some (File c st) \<Rightarrow>
         (case write_file dst' c w of
            Inl e \<Rightarrow> (Inl e, w)
          | Inr w' \<Rightarrow> (Inr (), w'\<lparr>fs := (fs w')(dst' \<mapsto> File c st)\<rparr>)))"

text \<open>The list of \<open>copy_xml_resources\<close>, lines 82 to 87.\<close>

definition xml_files :: "(string \<times> string) list" where
  "xml_files =
     [(''values/strings.xml'', ''values''),
      (''values/styles.xml'', ''values''),
      (''values/colors.xml'', ''values''),
      (''drawable/splashscreen.xml'', ''drawable'')]"

text \<open>The body of the loop of \<open>copy_xml_resources\<close>, lines 91 to 100.\<close>

definition copy_body :: "path \<Rightarrow> path \<Rightarrow> string \<times> string \<Rightarrow> 'st world \<Rightarrow> (error + unit) \<times> 'st world" where
  "copy_body source_dir dest_dir fp w =
     (case fp of (file_path, subdir) \<Rightarrow>
      let src = joinpath source_dir file_path;
          dest_dir_path = joinpath dest_dir subdir in
      case mkdir dest_dir_path w of
        Inl e \<Rightarrow> (Inl e, w)
      | Inr w1 \<Rightarrow>
         (let dest = joinpath dest_dir_path (name_of file_path) in
          if exists src w1 then
            (case copy2 src dest w1 of
               (Inl e, w2) \<Rightarrow> (Inl e, w2)
             | (Inr u, w2) \<Rightarrow> (Inr (), print (Copied dest) w2))
          else (Inr (), print (Source_not_found src) w1)))"

fun copy_loop :: "path \<Rightarrow> path \<Rightarrow> (string \<times> string) list \<Rightarrow> 'st world \<Rightarrow> (error + unit) \<times> 'st world" where
  "copy_loop source_dir dest_dir [] w = (Inr (), w)"
| "copy_loop source_dir dest_dir (fp # rest) w =
     (case copy_body source_dir dest_dir fp w of
        (Inl e, w') \<Rightarrow> (Inl e, w')
      | (Inr u, w') \<Rightarrow> copy_loop source_dir dest_dir rest w')"

text \<open>\<open>copy_xml_resources(source_dir, dest_dir)\<close>, lines 78 to 102.\<close>

definition copy_xml_resources :: "path \<Rightarrow> path \<Rightarrow> 'st world \<Rightarrow> (error + unit) \<times> 'st world" where
  "copy_xml_resources source_dir dest_dir w =
     (case copy_loop source_dir dest_dir xml_files (print Copying_XML_resources w) of
        (Inl e, w') \<Rightarrow> (Inl e, w')
      | (Inr u, w') \<Rightarrow> (Inr (), print Blank w'))"

text \<open>
  How the process ends: \<open>Exit n\<close> is \<open>sys.exit(n)\<close>, or status 0 when \<open>main\<close>
  returns; \<open>Uncaught e\<close> is an exception nobody catches, on which the interpreter prints
  a traceback and exits with status 1.
\<close>

datatype ending = Exit nat | Uncaught error

fun status :: "ending \<Rightarrow> nat" where
  "status (Exit n) = n"
| "status (Uncaught e) = 1"

text \<open>
  \<open>main()\<close>, lines 105 to 151; \<open>project_root\<close> is the directory of the script.
\<close>

definition main :: "pillow \<Rightarrow> path \<Rightarrow> 'st world \<Rightarrow> ending \<times> 'st world" where
  "main P project_root w =
     (let source_icon = joinpath (joinpath project_root ''assets'') ''icon.png'';
          android_res = joinpath (joinpath (joinpath (joinpath (joinpath project_root
                          ''android'') ''app'') ''src'') ''main'') ''res'';
          manual_fix_dir = joinpath project_root ''android-resources-manual-fix'';
          w1 = prints [Rule60, Android_Icon_Resource_Generator, Rule60, Blank] w
      in
      if \<not> exists source_icon w1 then
        (Exit 1, print (ERROR_Source_icon_not_found source_icon) w1)
      else if \<not> exists android_res w1 then
        (Exit 1, prints [ERROR_Android_res_directory_not_found android_res, Blank,
                         Please_ensure_android_directory, You_may_need_to_run] w1)
      else
        (case generate_icons P source_icon android_res w1 of
           (Inl e, w2) \<Rightarrow> (Uncaught e, w2)
         | (Inr success, w2) \<Rightarrow>
            (if \<not> success then (Exit 1, w2)
             else
               (case (if exists manual_fix_dir w2
                      then copy_xml_resources manual_fix_dir android_res w2
                      else (Inr (), prints [Note_manual_fix_directory_not_found,
                                            XML_resources_not_copied] w2)) of
                  (Inl e, w3) \<Rightarrow> (Uncaught e, w3)
                | (Inr u, w3) \<Rightarrow>
                   (Exit 0,
                    prints [Rule60, COMPLETE, Rule60, Blank, Next_steps, Step_cd_android,
                            Step_gradlew_clean, Step_gradlew_assembleRelease, Blank] w3)))))"

section \<open>Values and conditions used to state the properties\<close>

text \<open>
  The image values that one iteration of the loop leaves on the heap, as functions of the
  source: the resized square (\<open>Image_resize\<close> with the Lanczos filter), the mask that
  \<open>create_round_icon\<close> draws, and the round icon it returns for an \<open>RGBA\<close> square
  with pixel data \<open>spx\<close> (lemma \<open>create_round_icon_RGBA\<close>).
\<close>

definition square_image :: "pillow \<Rightarrow> image \<Rightarrow> raster \<Rightarrow> nat \<Rightarrow> image" where
  "square_image P im px e =
     \<lparr>mode = mode im, size_im = (e, e),
      data = Some (resize_kernel P LANCZOS (e, e) (mode im) (size_im im) px)\<rparr>"

definition mask_image :: "nat \<times> nat \<Rightarrow> image" where
  "mask_image sz =
     \<lparr>mode = ''L'', size_im = sz,
      data = Some (ellipse_px (0, 0, int (fst sz), int (snd sz)) 255 (\<lambda>xy. bands [0]))\<rparr>"

definition round_image :: "nat \<times> nat \<Rightarrow> raster \<Rightarrow> image" where
  "round_image sz spx =
     \<lparr>mode = ''RGBA'', size_im = sz,
      data = Some (putband_px 3 (ellipse_px (0, 0, int (fst sz), int (snd sz)) 255 (\<lambda>xy. bands [0]))
                     (paste_px (0, 0) sz spx (\<lambda>xy. bands [0, 0, 0, 0])))\<rparr>"

text \<open>
  The inscribed ellipse, in the words of the specification and not from the code: the
  ellipse inscribed in the image rectangle \<open>[0, w] \<times> [0, h]\<close>, with centre \<open>(w/2, h/2)\<close> and
  semi-axes \<open>w/2\<close> and \<open>h/2\<close>. \<open>in_inscribed_ellipse (w, h) k (u, v)\<close>: the point
  \<open>(u/k, v/k)\<close> lies in the closed ellipse. Pixel \<open>(x, y)\<close> covers the square
  \<open>[x, x + 1] \<times> [y, y + 1]\<close>; \<open>axis_gap n x\<close> is twice the distance from \<open>n/2\<close> to the
  interval \<open>[x, x + 1]\<close>, and \<open>outside_inscribed_ellipse (w, h) (x, y)\<close> says that the
  point of the pixel nearest to the centre, and with it every point of the pixel, lies
  outside the ellipse (lemma \<open>outside_inscribed_ellipse_points\<close>).
\<close>

definition in_inscribed_ellipse :: "nat \<times> nat \<Rightarrow> int \<Rightarrow> int \<times> int \<Rightarrow> bool" where
  "in_inscribed_ellipse sz k uv =
     (case sz of (w, h) \<Rightarrow>
      case uv of (u, v) \<Rightarrow>
        (2 * u - k * int w)\<^sup>2 * (int h)\<^sup>2 + (2 * v - k * int h)\<^sup>2 * (int w)\<^sup>2
          \<le> k\<^sup>2 * ((int w)\<^sup>2 * (int h)\<^sup>2))"

definition axis_gap :: "nat \<Rightarrow> nat \<Rightarrow> int" where
  "axis_gap n x =
     (if 2 * int x + 2 < int n then int n - (2 * int x + 2)
      else if int n < 2 * int x then 2 * int x - int n
      else 0)"

definition outside_inscribed_ellipse :: "nat \<times> nat \<Rightarrow> nat \<times> nat \<Rightarrow> bool" where
  "outside_inscribed_ellipse sz xy =
     (case sz of (w, h) \<Rightarrow>
      case xy of (x, y) \<Rightarrow>
        (int w)\<^sup>2 * (int h)\<^sup>2 < (axis_gap w x)\<^sup>2 * (int h)\<^sup>2 + (axis_gap h y)\<^sup>2 * (int w)\<^sup>2)"

text \<open>
  \<open>source_file p w\<close> is the image that \<open>Image.open\<close> identifies at \<open>p\<close>, if any;
  \<open>source_pixels P im\<close> is the pixel data the loop resizes: the data of an \<open>RGBA\<close>
  image, the converted data of any other; \<open>None\<close> when decoding or conversion raises.
\<close>

definition source_file :: "path \<Rightarrow> 'st world \<Rightarrow> image option" where
  "source_file p w =
     (case lookup (fs w) p of
        Some (File (Encoded fmt im) st) \<Rightarrow> Some im
      | _ \<Rightarrow> None)"

definition source_pixels :: "pillow \<Rightarrow> image \<Rightarrow> raster option" where
  "source_pixels P im =
     (if mode im = ''RGBA'' then data im
      else case data im of
             None \<Rightarrow> None
           | Some px \<Rightarrow> convert_kernel P ''RGBA'' (mode im) (size_im im) px)"

text \<open>
  The output tree accepts the icons of density \<open>d\<close>: the directory \<open>mipmap-d\<close> is there,
  or is missing inside an existing output directory, and neither icon path is a directory.
\<close>

definition writable :: "path \<Rightarrow> string \<Rightarrow> 'st world \<Rightarrow> bool" where
  "writable out d w \<longleftrightarrow>
     (is_dir (out @ [mipmap d]) w \<or> (lookup (fs w) (out @ [mipmap d]) = None \<and> is_dir out w)) \<and>
     fs w (out @ [mipmap d, ''ic_launcher.png'']) \<noteq> Some Dir \<and>
     fs w (out @ [mipmap d, ''ic_launcher_round.png'']) \<noteq> Some Dir"

section \<open>Example inputs\<close>

text \<open>
  Kernels for the examples: \<open>RGB\<close> converts to \<open>RGBA\<close> by an opaque alpha band, no other
  conversion is supported; resizing samples the nearest pixel.
\<close>

definition example_pillow :: pillow where
  "example_pillow =
     \<lparr>convert_kernel = (\<lambda>target m sz px.
         if target = ''RGBA'' \<and> m = ''RGB'' then Some (\<lambda>xy b. if b = 3 then 255 else px xy b)
         else None),
      resize_kernel = (\<lambda>f sz' m sz px.
         (\<lambda>xy b. px (fst xy * fst sz div fst sz', snd xy * snd sz div snd sz') b))\<rparr>"

definition example_pixels :: raster where
  "example_pixels = (\<lambda>xy b. if b = 3 then 128 else 200)"

definition example_icon :: image where
  "example_icon = \<lparr>mode = ''RGBA'', size_im = (2, 2), data = Some example_pixels\<rparr>"

definition example_rgb_icon :: image where
  "example_rgb_icon = \<lparr>mode = ''RGB'', size_im = (2, 2), data = Some example_pixels\<rparr>"

definition example_truncated_icon :: image where
  "example_truncated_icon = \<lparr>mode = ''RGBA'', size_im = (2, 2), data = None\<rparr>"

definition example_world :: "image \<Rightarrow> nat world" where
  "example_world im =
     \<lparr>fs = [[''icon.png''] \<mapsto> File (Encoded ''PNG'' im) 1, [''res''] \<mapsto> Dir],
      heap = [], stdout = [], new_stat = 2\<rparr>"

definition example_blocked_world :: "nat world" where
  "example_blocked_world =
     \<lparr>fs = [[''icon.png''] \<mapsto> File (Encoded ''PNG'' example_icon) 1, [''res''] \<mapsto> Dir,
             [''res'', ''mipmap-mdpi''] \<mapsto> File (Text ''not a directory'') 1],
      heap = [], stdout = [], new_stat = 2\<rparr>"

definition example_empty_world :: "nat world" where
  "example_empty_world = \<lparr>fs = Map.empty, heap = [], stdout = [], new_stat = 2\<rparr>"


definition example_stale_world :: "nat world" where
  "example_stale_world =
     \<lparr>fs = [[''icon.png''] \<mapsto> File (Encoded ''PNG'' example_icon) 1, [''res''] \<mapsto> Dir,
             [''res'', ''mipmap-mdpi''] \<mapsto> Dir,
             [''res'', ''mipmap-mdpi'', ''ic_launcher.png''] \<mapsto> File (Text ''old icon'') 1],
      heap = [], stdout = [], new_stat = 2\<rparr>"

definition example_big_icon :: image where
  "example_big_icon = \<lparr>mode = ''RGBA'', size_im = (8, 8), data = Some example_pixels\<rparr>"

definition example_heap_world :: "nat world" where
  "example_heap_world =
     \<lparr>fs = Map.empty, heap = [example_big_icon], stdout = [], new_stat = 2\<rparr>"

definition example_project_world :: "nat world" where
  "example_project_world =
     \<lparr>fs = [[''proj'', ''assets'', ''icon.png''] \<mapsto> File (Text ''not an image'') 1,
             [''proj'', ''android'', ''app'', ''src'', ''main'', ''res''] \<mapsto> Dir],
      heap = [], stdout = [], new_stat = 2\<rparr>"


section \<open>Paths, printing, directories and files\<close>

lemma splitc_no_sep: "c \<notin> set s \<Longrightarrow> splitc c s = [s]"
  by (induction s) auto

lemma joinpath_single:
  "CHR ''/'' \<notin> set s \<Longrightarrow> s \<noteq> [] \<Longrightarrow> s \<noteq> ''.'' \<Longrightarrow> joinpath p s = p @ [s]"
  by (cases s) (auto simp: joinpath_def parts_def splitc_no_sep)

lemma print_fields [simp]:
  "fs (print l w) = fs w" "heap (print l w) = heap w"
  "stdout (print l w) = stdout w @ [l]" "new_stat (print l w) = new_stat w"
  by (simp_all add: print_def)

lemma prints_fields [simp]:
  "fs (prints ls w) = fs w" "heap (prints ls w) = heap w"
  "stdout (prints ls w) = stdout w @ ls" "new_stat (prints ls w) = new_stat w"
  by (induction ls arbitrary: w) (simp_all add: prints_def)

lemma exists_print [simp]: "exists p (print l w) = exists p w"
  by (simp add: exists_def)

lemma exists_prints [simp]: "exists p (prints ls w) = exists p w"
  by (simp add: exists_def)

lemma lookup_upd [simp]:
  "q \<noteq> [] \<Longrightarrow> lookup (f(q \<mapsto> n)) p = (if p = q then Some n else lookup f p)"
  by (simp add: lookup_def)

lemma os_mkdir_Inr:
  "os_mkdir p w = Inr w' \<Longrightarrow>
     p \<noteq> [] \<and> lookup (fs w) p = None \<and> is_dir (parent p) w \<and> w' = w\<lparr>fs := (fs w)(p \<mapsto> Dir)\<rparr>"
  by (auto simp: os_mkdir_def is_dir_def lookup_def split: option.splits node.splits if_splits)

lemma os_mkdir_Inl:
  "os_mkdir p w = Inl e \<Longrightarrow> e = FileNotFoundError \<Longrightarrow> lookup (fs w) p = None"
  by (auto simp: os_mkdir_def split: option.splits node.splits)

lemma mkdir_idem: "is_dir p w \<Longrightarrow> mkdir p w = Inr w"
  by (subst mkdir.simps) (simp add: os_mkdir_def is_dir_def)

lemma mkdir_new:
  "lookup (fs w) p = None \<Longrightarrow> is_dir (parent p) w \<Longrightarrow> mkdir p w = Inr (w\<lparr>fs := (fs w)(p \<mapsto> Dir)\<rparr>)"
  by (subst mkdir.simps) (simp add: os_mkdir_def is_dir_def)

lemma mkdir_file:
  "lookup (fs w) p = Some (File c st) \<Longrightarrow> mkdir p w = Inl FileExistsError"
  by (subst mkdir.simps) (simp add: os_mkdir_def is_dir_def)

lemma mkdir_Inr:
  "mkdir p w = Inr w' \<Longrightarrow>
     is_dir p w' \<and> heap w' = heap w \<and> stdout w' = stdout w \<and> new_stat w' = new_stat w \<and>
     (\<forall>q. fs w' q = fs w q \<or> (fs w q = None \<and> fs w' q = Some Dir \<and> prefix q p))"
proof (induction p w arbitrary: w' rule: mkdir.induct)
  case (1 p w)
  show ?case
  proof (cases "os_mkdir p w")
    case (Inr w1)
    with "1.prems" have "w' = w1" by (subst (asm) mkdir.simps) simp
    with Inr os_mkdir_Inr [OF Inr] show ?thesis
      by (auto simp: is_dir_def lookup_def)
  next
    case (Inl e)
    show ?thesis
    proof (cases "e = FileNotFoundError")
      case False
      with Inl "1.prems" have "is_dir p w \<and> w' = w"
        by (subst (asm) mkdir.simps) (simp split: if_splits)
      then show ?thesis by simp
    next
      case True
      with Inl "1.prems" have pne: "p \<noteq> []"
        by (subst (asm) mkdir.simps) (simp split: if_splits)
      from True Inl "1.prems" pne obtain w1 where w1: "mkdir (parent p) w = Inr w1"
        by (subst (asm) mkdir.simps) (simp split: sum.splits)
      note IH = "1.IH" [OF Inl True pne w1]
      from True Inl "1.prems" pne w1
      have "os_mkdir p w1 = Inr w' \<or> (is_dir p w1 \<and> w' = w1)"
        by (subst (asm) mkdir.simps) (simp split: sum.splits if_splits)
      then show ?thesis
      proof
        assume "is_dir p w1 \<and> w' = w1"
        with IH show ?thesis
          by (auto simp: parent_def intro: prefix_order.trans [OF _ prefixeq_butlast])
      next
        assume a: "os_mkdir p w1 = Inr w'"
        note o = os_mkdir_Inr [OF a]
        have "\<forall>q. fs w' q = fs w q \<or> (fs w q = None \<and> fs w' q = Some Dir \<and> prefix q p)"
        proof
          fix q
          show "fs w' q = fs w q \<or> (fs w q = None \<and> fs w' q = Some Dir \<and> prefix q p)"
          proof (cases "q = p")
            case True
            with o os_mkdir_Inl [OF Inl \<open>e = FileNotFoundError\<close>] pne show ?thesis
              by (simp add: lookup_def)
          next
            case False
            with o have "fs w' q = fs w1 q" by simp
            with IH show ?thesis
              by (auto simp: parent_def intro: prefix_order.trans [OF _ prefixeq_butlast])
          qed
        qed
        with o IH show ?thesis by (simp add: is_dir_def lookup_def)
      qed
    qed
  qed
qed

lemma write_file_Inr:
  "write_file p c w = Inr w' \<Longrightarrow>
     lookup (fs w) p \<noteq> Some Dir \<and> is_dir (parent p) w \<and>
     w' = w\<lparr>fs := (fs w)(p \<mapsto> File c (new_stat w))\<rparr>"
  by (auto simp: write_file_def is_dir_def split: option.splits node.splits)

lemma write_file_ok:
  "lookup (fs w) p \<noteq> Some Dir \<Longrightarrow> is_dir (parent p) w \<Longrightarrow>
     write_file p c w = Inr (w\<lparr>fs := (fs w)(p \<mapsto> File c (new_stat w))\<rparr>)"
  by (auto simp: write_file_def is_dir_def split: option.splits node.splits)

section \<open>One iteration of the icon loop\<close>

lemma create_round_icon_RGBA:
  assumes "sq < length (heap w)"
    and "mode (heap w ! sq) = ''RGBA''"
    and "data (heap w ! sq) = Some spx"
  shows "create_round_icon P sq w =
    (Inr (Suc (length (heap w))),
     w\<lparr>heap := heap w @ [mask_image (size_im (heap w ! sq)),
                           round_image (size_im (heap w ! sq)) spx]\<rparr>)"
  using assms
  by (simp add: create_round_icon_def Image_new_def alloc_def ImageDraw_ellipse_def store_def
      Image_paste_def Image_putalpha_def alpha_band_def Let_def nth_append list_update_append
      mask_image_def round_image_def)

lemma mipmap_facts:
  "CHR ''/'' \<notin> set d \<Longrightarrow> CHR ''/'' \<notin> set (mipmap d)" "mipmap d \<noteq> []" "mipmap d \<noteq> ''.''"
  "mipmap d = mipmap d' \<longleftrightarrow> d = d'"
  by (auto simp: mipmap_def)

lemma joinpath_mipmap [simp]:
  "CHR ''/'' \<notin> set d \<Longrightarrow> joinpath p (mipmap d) = p @ [mipmap d]"
  by (rule joinpath_single) (auto simp: mipmap_facts)

lemma joinpath_launcher [simp]:
  "joinpath p ''ic_launcher.png'' = p @ [''ic_launcher.png'']"
  "joinpath p ''ic_launcher_round.png'' = p @ [''ic_launcher_round.png'']"
  by (simp_all add: joinpath_single)

lemma parent_snoc [simp]: "parent (p @ [a]) = p" "parent (p @ [a, b]) = p @ [a]"
  by (simp_all add: parent_def butlast_append)

lemma Image_resize_ok:
  "data (heap w ! r) = Some px \<Longrightarrow>
   Image_resize P r (e, e) LANCZOS w =
     (Inr (length (heap w)), w\<lparr>heap := heap w @ [square_image P (heap w ! r) px e]\<rparr>)"
  by (simp add: Image_resize_def alloc_def square_image_def Let_def)

lemma Image_save_loaded:
  "data (heap w ! r) = Some px \<Longrightarrow>
   Image_save r p fmt w =
     (case write_file p (Encoded fmt (heap w ! r)) w of Inl e \<Rightarrow> (Inl e, w) | Inr w' \<Rightarrow> (Inr (), w'))"
  by (simp add: Image_save_def Let_def)

lemma write_file_cases:
  "write_file p c w =
     (if lookup (fs w) p \<noteq> Some Dir \<and> is_dir (parent p) w
      then Inr (w\<lparr>fs := (fs w)(p \<mapsto> File c (new_stat w))\<rparr>)
      else Inl (if lookup (fs w) p = Some Dir then IsADirectoryError
                else if lookup (fs w) (parent p) = None then FileNotFoundError
                else NotADirectoryError))"
  by (auto simp: write_file_def is_dir_def split: option.splits node.splits)

lemma icon_body_Inr:
  assumes src: "src < length (heap w)" "mode (heap w ! src) = ''RGBA''" "data (heap w ! src) = Some px"
    and d: "CHR ''/'' \<notin> set d"
  shows "icon_body P src out (d, e) w = (Inr (), w') \<longleftrightarrow>
    (\<exists>w1. mkdir (out @ [mipmap d]) w = Inr w1 \<and>
       fs w1 (out @ [mipmap d, ''ic_launcher.png'']) \<noteq> Some Dir \<and>
       fs w1 (out @ [mipmap d, ''ic_launcher_round.png'']) \<noteq> Some Dir \<and>
       w' = w1\<lparr>fs := (fs w1)
               (out @ [mipmap d, ''ic_launcher.png''] \<mapsto>
                  File (Encoded ''PNG'' (square_image P (heap w ! src) px e)) (new_stat w),
                out @ [mipmap d, ''ic_launcher_round.png''] \<mapsto>
                  File (Encoded ''PNG'' (round_image (e, e) (resize_kernel P LANCZOS (e, e) ''RGBA'' (size_im (heap w ! src)) px))) (new_stat w)),
             heap := heap w @ [square_image P (heap w ! src) px e, mask_image (e, e),
                       round_image (e, e) (resize_kernel P LANCZOS (e, e) ''RGBA'' (size_im (heap w ! src)) px)],
             stdout := stdout w @ [Created (out @ [mipmap d, ''ic_launcher.png'']) e,
                                   Created (out @ [mipmap d, ''ic_launcher_round.png'']) e]\<rparr>)"
proof (cases "mkdir (out @ [mipmap d]) w")
  case (Inl err)
  then show ?thesis by (simp add: icon_body_def d)
next
  case (Inr w1)
  note m = mkdir_Inr [OF Inr]
  have sqv: "length (heap w) < length (heap w @ [square_image P (heap w ! src) px e])" by simp
  show ?thesis
    using m src Inr
    apply (simp add: icon_body_def d Image_resize_ok Let_def Image_save_loaded nth_append
      write_file_cases is_dir_def lookup_def)
    apply (simp add: create_round_icon_RGBA Image_save_loaded nth_append square_image_def
      write_file_cases is_dir_def lookup_def Let_def d round_image_def)
    apply (auto simp: print_def)
    done
qed

lemma icon_body_effect:
  assumes b: "icon_body P src out (d, e) w = (Inr (), w')"
    and src: "src < length (heap w)" "mode (heap w ! src) = ''RGBA''" "data (heap w ! src) = Some px"
    and d: "CHR ''/'' \<notin> set d"
  shows "new_stat w' = new_stat w"
    and "heap w' = heap w @ [square_image P (heap w ! src) px e, mask_image (e, e),
           round_image (e, e) (resize_kernel P LANCZOS (e, e) ''RGBA'' (size_im (heap w ! src)) px)]"
    and "stdout w' = stdout w @ [Created (out @ [mipmap d, ''ic_launcher.png'']) e,
                                   Created (out @ [mipmap d, ''ic_launcher_round.png'']) e]"
    and "fs w' (out @ [mipmap d]) = Some Dir"
    and "fs w' (out @ [mipmap d, ''ic_launcher.png'']) =
           Some (File (Encoded ''PNG'' (square_image P (heap w ! src) px e)) (new_stat w))"
    and "fs w' (out @ [mipmap d, ''ic_launcher_round.png'']) =
           Some (File (Encoded ''PNG'' (round_image (e, e)
             (resize_kernel P LANCZOS (e, e) ''RGBA'' (size_im (heap w ! src)) px))) (new_stat w))"
    and "\<forall>q. fs w' q = fs w q \<or>
             (fs w q = None \<and> fs w' q = Some Dir \<and> prefix q (out @ [mipmap d]) \<and>
              \<not> is_dir (out @ [mipmap d]) w) \<or>
             q = out @ [mipmap d, ''ic_launcher.png''] \<or>
             q = out @ [mipmap d, ''ic_launcher_round.png'']"
proof -
  from b [unfolded icon_body_Inr [OF src d]] obtain w1 where
    m: "mkdir (out @ [mipmap d]) w = Inr w1" and
    w': "w' = w1\<lparr>fs := (fs w1)
               (out @ [mipmap d, ''ic_launcher.png''] \<mapsto>
                  File (Encoded ''PNG'' (square_image P (heap w ! src) px e)) (new_stat w),
                out @ [mipmap d, ''ic_launcher_round.png''] \<mapsto>
                  File (Encoded ''PNG'' (round_image (e, e) (resize_kernel P LANCZOS (e, e) ''RGBA'' (size_im (heap w ! src)) px))) (new_stat w)),
             heap := heap w @ [square_image P (heap w ! src) px e, mask_image (e, e),
                       round_image (e, e) (resize_kernel P LANCZOS (e, e) ''RGBA'' (size_im (heap w ! src)) px)],
             stdout := stdout w @ [Created (out @ [mipmap d, ''ic_launcher.png'']) e,
                                   Created (out @ [mipmap d, ''ic_launcher_round.png'']) e]\<rparr>"
    by blast
  note mi = mkdir_Inr [OF m]
  show "new_stat w' = new_stat w" using w' mi by simp
  show "heap w' = heap w @ [square_image P (heap w ! src) px e, mask_image (e, e),
           round_image (e, e) (resize_kernel P LANCZOS (e, e) ''RGBA'' (size_im (heap w ! src)) px)]"
    using w' by simp
  show "stdout w' = stdout w @ [Created (out @ [mipmap d, ''ic_launcher.png'']) e,
                                   Created (out @ [mipmap d, ''ic_launcher_round.png'']) e]"
    using w' by simp
  show "fs w' (out @ [mipmap d]) = Some Dir"
    using w' mi by (simp add: is_dir_def lookup_def)
  show "fs w' (out @ [mipmap d, ''ic_launcher.png'']) =
           Some (File (Encoded ''PNG'' (square_image P (heap w ! src) px e)) (new_stat w))"
    using w' by simp
  show "fs w' (out @ [mipmap d, ''ic_launcher_round.png'']) =
           Some (File (Encoded ''PNG'' (round_image (e, e)
             (resize_kernel P LANCZOS (e, e) ''RGBA'' (size_im (heap w ! src)) px))) (new_stat w))"
    using w' by simp
  show "\<forall>q. fs w' q = fs w q \<or>
             (fs w q = None \<and> fs w' q = Some Dir \<and> prefix q (out @ [mipmap d]) \<and>
              \<not> is_dir (out @ [mipmap d]) w) \<or>
             q = out @ [mipmap d, ''ic_launcher.png''] \<or>
             q = out @ [mipmap d, ''ic_launcher_round.png'']"
  proof (cases "is_dir (out @ [mipmap d]) w")
    case True
    with m have "w1 = w" by (simp add: mkdir_idem)
    with w' show ?thesis by simp
  next
    case False
    show ?thesis
    proof
      fix q
      from mi have "fs w1 q = fs w q \<or> (fs w q = None \<and> fs w1 q = Some Dir \<and> prefix q (out @ [mipmap d]))"
        by blast
      with False w' show "fs w' q = fs w q \<or>
             (fs w q = None \<and> fs w' q = Some Dir \<and> prefix q (out @ [mipmap d]) \<and>
              \<not> is_dir (out @ [mipmap d]) w) \<or>
             q = out @ [mipmap d, ''ic_launcher.png''] \<or>
             q = out @ [mipmap d, ''ic_launcher_round.png'']"
        by auto
    qed
  qed
qed

section \<open>The icon loop\<close>

lemma icon_loop_effect:
  assumes "icon_loop P src out ds w = (Inr (), w')"
    and "src < length (heap w)" "mode (heap w ! src) = ''RGBA''" "data (heap w ! src) = Some px"
    and "\<forall>x\<in>set ds. CHR ''/'' \<notin> set (fst x)" "distinct (map fst ds)"
  shows "new_stat w' = new_stat w \<and>
    stdout w' = stdout w @ concat (map (\<lambda>(d, e).
        [Created (out @ [mipmap d, ''ic_launcher.png'']) e,
         Created (out @ [mipmap d, ''ic_launcher_round.png'']) e]) ds) \<and>
    (\<exists>hs. heap w' = heap w @ hs) \<and>
    (\<forall>q. fs w' q = fs w q \<or>
         (fs w q = None \<and> fs w' q = Some Dir \<and>
          (\<exists>x\<in>set ds. prefix q (out @ [mipmap (fst x)]) \<and> \<not> is_dir (out @ [mipmap (fst x)]) w)) \<or>
         (\<exists>x\<in>set ds. q = out @ [mipmap (fst x), ''ic_launcher.png''] \<or>
                      q = out @ [mipmap (fst x), ''ic_launcher_round.png''])) \<and>
    (\<forall>(d, e)\<in>set ds.
       fs w' (out @ [mipmap d]) = Some Dir \<and>
       fs w' (out @ [mipmap d, ''ic_launcher.png'']) =
         Some (File (Encoded ''PNG'' (square_image P (heap w ! src) px e)) (new_stat w)) \<and>
       fs w' (out @ [mipmap d, ''ic_launcher_round.png'']) =
         Some (File (Encoded ''PNG'' (round_image (e, e)
           (resize_kernel P LANCZOS (e, e) ''RGBA'' (size_im (heap w ! src)) px))) (new_stat w)))"
  using assms
proof (induction ds arbitrary: w)
  case Nil
  then show ?case by simp
next
  case (Cons x ds)
  obtain d e where x: "x = (d, e)" by (cases x)
  from Cons.prems(1) obtain w2 where
    b: "icon_body P src out (d, e) w = (Inr (), w2)" and
    l: "icon_loop P src out ds w2 = (Inr (), w')"
    by (auto simp: x split: prod.splits sum.splits)
  have d: "CHR ''/'' \<notin> set d" using Cons.prems(5) by (simp add: x)
  note src = Cons.prems(2,3,4)
  note be = icon_body_effect [OF b src d]
  have src2: "src < length (heap w2)" "heap w2 ! src = heap w ! src"
    using be(2) src(1) by (simp_all add: nth_append)
  have IH: "new_stat w' = new_stat w2 \<and>
    stdout w' = stdout w2 @ concat (map (\<lambda>(d, e).
        [Created (out @ [mipmap d, ''ic_launcher.png'']) e,
         Created (out @ [mipmap d, ''ic_launcher_round.png'']) e]) ds) \<and>
    (\<exists>hs. heap w' = heap w2 @ hs) \<and>
    (\<forall>q. fs w' q = fs w2 q \<or>
         (fs w2 q = None \<and> fs w' q = Some Dir \<and>
          (\<exists>x\<in>set ds. prefix q (out @ [mipmap (fst x)]) \<and> \<not> is_dir (out @ [mipmap (fst x)]) w2)) \<or>
         (\<exists>x\<in>set ds. q = out @ [mipmap (fst x), ''ic_launcher.png''] \<or>
                      q = out @ [mipmap (fst x), ''ic_launcher_round.png''])) \<and>
    (\<forall>(d, e)\<in>set ds.
       fs w' (out @ [mipmap d]) = Some Dir \<and>
       fs w' (out @ [mipmap d, ''ic_launcher.png'']) =
         Some (File (Encoded ''PNG'' (square_image P (heap w2 ! src) px e)) (new_stat w2)) \<and>
       fs w' (out @ [mipmap d, ''ic_launcher_round.png'']) =
         Some (File (Encoded ''PNG'' (round_image (e, e)
           (resize_kernel P LANCZOS (e, e) ''RGBA'' (size_im (heap w2 ! src)) px))) (new_stat w2)))"
    using Cons.prems(5,6) src src2
    by (intro Cons.IH [OF l]) simp_all
  have notin: "d \<notin> fst ` set ds" using Cons.prems(6) by (simp add: x)
  \<comment> \<open>the directories of the other entries are not touched by this iteration\<close>
  have dirs: "is_dir (out @ [mipmap d']) w2 = is_dir (out @ [mipmap d']) w" if "d' \<in> fst ` set ds" for d'
  proof -
    from that notin have ne: "d' \<noteq> d" by auto
    from be(7) have "fs w2 (out @ [mipmap d']) = fs w (out @ [mipmap d']) \<or>
        (prefix (out @ [mipmap d']) (out @ [mipmap d]))" by auto
    moreover have "\<not> prefix (out @ [mipmap d']) (out @ [mipmap d])"
      using ne by (auto simp: mipmap_facts)
    ultimately show ?thesis by (simp add: is_dir_def lookup_def)
  qed
  have A: "new_stat w' = new_stat w" using IH be(1) by simp
  have B: "stdout w' = stdout w @ concat (map (\<lambda>(d, e).
        [Created (out @ [mipmap d, ''ic_launcher.png'']) e,
         Created (out @ [mipmap d, ''ic_launcher_round.png'']) e]) (x # ds))"
    using IH be(3) by (simp add: x)
  have C: "\<exists>hs. heap w' = heap w @ hs" using IH be(2) by auto
  have F: "\<forall>q. fs w' q = fs w q \<or>
         (fs w q = None \<and> fs w' q = Some Dir \<and>
          (\<exists>y\<in>set (x # ds). prefix q (out @ [mipmap (fst y)]) \<and> \<not> is_dir (out @ [mipmap (fst y)]) w)) \<or>
         (\<exists>y\<in>set (x # ds). q = out @ [mipmap (fst y), ''ic_launcher.png''] \<or>
                      q = out @ [mipmap (fst y), ''ic_launcher_round.png''])"
  proof
    fix q
    from IH [THEN conjunct2, THEN conjunct2, THEN conjunct2, THEN conjunct1] have 1: "fs w' q = fs w2 q \<or>
         (fs w2 q = None \<and> fs w' q = Some Dir \<and>
          (\<exists>y\<in>set ds. prefix q (out @ [mipmap (fst y)]) \<and> \<not> is_dir (out @ [mipmap (fst y)]) w2)) \<or>
         (\<exists>y\<in>set ds. q = out @ [mipmap (fst y), ''ic_launcher.png''] \<or>
                      q = out @ [mipmap (fst y), ''ic_launcher_round.png''])" by blast
    from be(7) have 2: "fs w2 q = fs w q \<or>
             (fs w q = None \<and> fs w2 q = Some Dir \<and> prefix q (out @ [mipmap d]) \<and>
              \<not> is_dir (out @ [mipmap d]) w) \<or>
             q = out @ [mipmap d, ''ic_launcher.png''] \<or>
             q = out @ [mipmap d, ''ic_launcher_round.png'']" by blast
    have 3: "\<not> is_dir (out @ [mipmap (fst y)]) w2 \<Longrightarrow> \<not> is_dir (out @ [mipmap (fst y)]) w"
      if "y \<in> set ds" for y using dirs [of "fst y"] that by simp
    show "fs w' q = fs w q \<or>
         (fs w q = None \<and> fs w' q = Some Dir \<and>
          (\<exists>y\<in>set (x # ds). prefix q (out @ [mipmap (fst y)]) \<and> \<not> is_dir (out @ [mipmap (fst y)]) w)) \<or>
         (\<exists>y\<in>set (x # ds). q = out @ [mipmap (fst y), ''ic_launcher.png''] \<or>
                      q = out @ [mipmap (fst y), ''ic_launcher_round.png''])"
      using 1 2 3 by (auto simp: x)
  qed
  have keep: "fs w' q = fs w2 q"
    if "fs w2 q \<noteq> None" "\<forall>y\<in>set ds. q \<noteq> out @ [mipmap (fst y), ''ic_launcher.png''] \<and>
                      q \<noteq> out @ [mipmap (fst y), ''ic_launcher_round.png'']" for q
    using IH [THEN conjunct2, THEN conjunct2, THEN conjunct2, THEN conjunct1, rule_format, of q] that
    by blast
  have P1: "fs w' (out @ [mipmap d]) = Some Dir"
    using keep [of "out @ [mipmap d]"] be(4) by simp
  have P2: "fs w' (out @ [mipmap d, ''ic_launcher.png'']) =
         Some (File (Encoded ''PNG'' (square_image P (heap w ! src) px e)) (new_stat w))"
    using keep [of "out @ [mipmap d, ''ic_launcher.png'']"] be(5) notin
    by (auto simp: mipmap_facts)
  have P3: "fs w' (out @ [mipmap d, ''ic_launcher_round.png'']) =
         Some (File (Encoded ''PNG'' (round_image (e, e)
           (resize_kernel P LANCZOS (e, e) ''RGBA'' (size_im (heap w ! src)) px))) (new_stat w))"
    using keep [of "out @ [mipmap d, ''ic_launcher_round.png'']"] be(6) notin
    by (auto simp: mipmap_facts)
  have P: "\<forall>(d, e)\<in>set (x # ds).
       fs w' (out @ [mipmap d]) = Some Dir \<and>
       fs w' (out @ [mipmap d, ''ic_launcher.png'']) =
         Some (File (Encoded ''PNG'' (square_image P (heap w ! src) px e)) (new_stat w)) \<and>
       fs w' (out @ [mipmap d, ''ic_launcher_round.png'']) =
         Some (File (Encoded ''PNG'' (round_image (e, e)
           (resize_kernel P LANCZOS (e, e) ''RGBA'' (size_im (heap w ! src)) px))) (new_stat w))"
    using IH [THEN conjunct2, THEN conjunct2, THEN conjunct2, THEN conjunct2] P1 P2 P3 src2 be(1)
    by (simp add: x)
  from A B C F P show ?case by (intro conjI)
qed

lemma icon_body_succeeds:
  assumes wr: "writable out d w"
    and src: "src < length (heap w)" "mode (heap w ! src) = ''RGBA''" "data (heap w ! src) = Some px"
    and d: "CHR ''/'' \<notin> set d"
  shows "\<exists>w'. icon_body P src out (d, e) w = (Inr (), w')"
proof -
  from wr have "mkdir (out @ [mipmap d]) w = Inr w \<or>
      mkdir (out @ [mipmap d]) w = Inr (w\<lparr>fs := (fs w)(out @ [mipmap d] \<mapsto> Dir)\<rparr>)"
    by (auto simp: writable_def mkdir_idem mkdir_new)
  then show ?thesis
    using wr unfolding icon_body_Inr [OF src d] writable_def
    by auto
qed

lemma writable_preserved:
  assumes b: "icon_body P src out (d, e) w = (Inr (), w')"
    and src: "src < length (heap w)" "mode (heap w ! src) = ''RGBA''" "data (heap w ! src) = Some px"
    and d: "CHR ''/'' \<notin> set d"
    and ne: "d' \<noteq> d"
    and wr: "writable out d' w"
  shows "writable out d' w'"
proof -
  note be = icon_body_effect [OF b src d]
  have n1: "\<not> prefix (out @ [mipmap d']) (out @ [mipmap d])" using ne by (auto simp: mipmap_facts)
  have n2: "\<not> prefix (out @ [mipmap d', f]) (out @ [mipmap d])" for f by auto
  have 1: "fs w' (out @ [mipmap d']) = fs w (out @ [mipmap d'])"
    using be(7) [rule_format, of "out @ [mipmap d']"] n1 by auto
  have 2: "fs w' (out @ [mipmap d', ''ic_launcher.png'']) = fs w (out @ [mipmap d', ''ic_launcher.png''])"
    using be(7) [rule_format, of "out @ [mipmap d', ''ic_launcher.png'']"] ne n2
    by (auto simp: mipmap_facts)
  have 3: "fs w' (out @ [mipmap d', ''ic_launcher_round.png'']) = fs w (out @ [mipmap d', ''ic_launcher_round.png''])"
    using be(7) [rule_format, of "out @ [mipmap d', ''ic_launcher_round.png'']"] ne n2
    by (auto simp: mipmap_facts)
  have 4: "is_dir out w \<Longrightarrow> is_dir out w'"
    using be(7) [rule_format, of out] by (auto simp: is_dir_def lookup_def)
  show ?thesis using wr 1 2 3 4 by (auto simp: writable_def is_dir_def lookup_def)
qed

lemma icon_loop_succeeds:
  assumes "\<forall>x\<in>set ds. writable out (fst x) w"
    and "src < length (heap w)" "mode (heap w ! src) = ''RGBA''" "data (heap w ! src) = Some px"
    and "\<forall>x\<in>set ds. CHR ''/'' \<notin> set (fst x)" "distinct (map fst ds)"
  shows "\<exists>w'. icon_loop P src out ds w = (Inr (), w')"
  using assms
proof (induction ds arbitrary: w)
  case Nil
  then show ?case by simp
next
  case (Cons x ds)
  obtain d e where x: "x = (d, e)" by (cases x)
  have d: "CHR ''/'' \<notin> set d" using Cons.prems(5) by (simp add: x)
  note src = Cons.prems(2,3,4)
  from Cons.prems(1) have "writable out d w" by (simp add: x)
  from icon_body_succeeds [OF this src d] obtain w2 where
    b: "icon_body P src out (d, e) w = (Inr (), w2)" by blast
  note be = icon_body_effect [OF b src d]
  have src2: "src < length (heap w2)" "mode (heap w2 ! src) = ''RGBA''" "data (heap w2 ! src) = Some px"
    using be(2) src by (simp_all add: nth_append)
  have "\<forall>y\<in>set ds. writable out (fst y) w2"
  proof
    fix y assume y: "y \<in> set ds"
    with Cons.prems(6) have "fst y \<noteq> d" by (auto simp: x)
    moreover from y Cons.prems(1) have "writable out (fst y) w" by simp
    ultimately show "writable out (fst y) w2"
      using writable_preserved [OF b src d] by blast
  qed
  from Cons.IH [OF this src2] Cons.prems(5,6) obtain w' where
    "icon_loop P src out ds w2 = (Inr (), w')" by auto
  with b show ?case by (simp add: x)
qed

section \<open>Loading the source and generating the icons\<close>

lemma load_source_cases:
  "load_source P sp w =
     (case lookup (fs w) sp of
        None \<Rightarrow> (Inl FileNotFoundError, w)
      | Some Dir \<Rightarrow> (Inl IsADirectoryError, w)
      | Some (File (Text t) st) \<Rightarrow> (Inl UnidentifiedImageError, w)
      | Some (File (Encoded fmt im) st) \<Rightarrow>
         (if mode im = ''RGBA'' then (Inr (length (heap w)), w\<lparr>heap := heap w @ [im]\<rparr>)
          else case data im of
            None \<Rightarrow> (Inl DecodeError, w\<lparr>heap := heap w @ [im]\<rparr>)
          | Some p \<Rightarrow>
             (case convert_kernel P ''RGBA'' (mode im) (size_im im) p of
                None \<Rightarrow> (Inl ValueError, w\<lparr>heap := heap w @ [im]\<rparr>)
              | Some p' \<Rightarrow>
                 (Inr (Suc (length (heap w))),
                  w\<lparr>heap := heap w @ [im, \<lparr>mode = ''RGBA'', size_im = size_im im, data = Some p'\<rparr>]\<rparr>))))"
  by (simp add: load_source_def Image_open_def Image_convert_def alloc_def Let_def
      split: option.splits node.splits content.splits)

lemma load_source_Inr:
  assumes "load_source P sp w = (Inr r, w1)"
  shows "\<exists>im. source_file sp w = Some im \<and>
     r < length (heap w1) \<and> (\<exists>hs. heap w1 = heap w @ hs) \<and>
     mode (heap w1 ! r) = ''RGBA'' \<and> size_im (heap w1 ! r) = size_im im \<and>
     data (heap w1 ! r) = source_pixels P im \<and>
     fs w1 = fs w \<and> stdout w1 = stdout w \<and> new_stat w1 = new_stat w"
  using assms unfolding load_source_cases source_file_def source_pixels_def
  by (auto split: option.splits node.splits content.splits if_splits simp: nth_append)

lemma load_source_Inl:
  assumes "load_source P sp w = (Inl e, w1)"
  shows "(case source_file sp w of None \<Rightarrow> True
          | Some im \<Rightarrow> mode im \<noteq> ''RGBA'' \<and> source_pixels P im = None) \<and>
     fs w1 = fs w \<and> stdout w1 = stdout w \<and> new_stat w1 = new_stat w"
  using assms unfolding load_source_cases source_file_def source_pixels_def
  by (auto split: option.splits node.splits content.splits if_splits)

lemma load_source_ok:
  assumes "source_file sp w = Some im" "source_pixels P im = Some px"
  shows "\<exists>r w1. load_source P sp w = (Inr r, w1)"
  using assms unfolding load_source_cases source_file_def source_pixels_def
  by (auto split: option.splits node.splits content.splits if_splits)

lemma load_source_fails:
  assumes "case source_file sp w of None \<Rightarrow> True
          | Some im \<Rightarrow> mode im \<noteq> ''RGBA'' \<and> source_pixels P im = None"
  shows "\<exists>e w1. load_source P sp w = (Inl e, w1)"
  using assms unfolding load_source_cases source_file_def source_pixels_def
  by (auto split: option.splits node.splits content.splits if_splits)

lemma source_file_print [simp]: "source_file p (print l w) = source_file p w"
  by (simp add: source_file_def)

lemma icon_body_undecodable:
  assumes "data (heap w ! src) = None" "CHR ''/'' \<notin> set d"
  shows "icon_body P src out (d, e) w =
     (case mkdir (out @ [mipmap d]) w of Inl err \<Rightarrow> (Inl err, w) | Inr w1 \<Rightarrow> (Inl DecodeError, w1))"
  using assms
  by (auto simp: icon_body_def Image_resize_def Let_def dest!: mkdir_Inr split: sum.splits)

lemma densities_facts:
  "\<forall>x\<in>set densities. CHR ''/'' \<notin> set (fst x)" "distinct (map fst densities)"
  by (simp_all add: densities_def)

lemma icon_loop_undecodable:
  assumes "data (heap w ! src) = None"
  shows "fst (icon_loop P src out densities w) \<noteq> Inr ()"
  using assms
  by (simp add: densities_def icon_body_undecodable split: sum.splits prod.splits)

lemma generate_icons_True:
  assumes g: "fst (generate_icons P sp out w) = Inr True"
  obtains im px where
    "source_file sp w = Some im" "source_pixels P im = Some px"
    "new_stat (snd (generate_icons P sp out w)) = new_stat w"
    "stdout (snd (generate_icons P sp out w)) =
      stdout w @ [Loading_source_icon sp, Source_icon_size (size_im im), Blank] @
      concat (map (\<lambda>(d, e).
        [Created (out @ [mipmap d, ''ic_launcher.png'']) e,
         Created (out @ [mipmap d, ''ic_launcher_round.png'']) e]) densities) @
      [Blank, SUCCESS_All_Android_icons_generated]"
    "\<forall>q. fs (snd (generate_icons P sp out w)) q = fs w q \<or>
         (fs w q = None \<and> fs (snd (generate_icons P sp out w)) q = Some Dir \<and>
          (\<exists>x\<in>set densities. prefix q (out @ [mipmap (fst x)]) \<and> \<not> is_dir (out @ [mipmap (fst x)]) w)) \<or>
         (\<exists>x\<in>set densities. q = out @ [mipmap (fst x), ''ic_launcher.png''] \<or>
                      q = out @ [mipmap (fst x), ''ic_launcher_round.png''])"
    "\<forall>(d, e)\<in>set densities.
       fs (snd (generate_icons P sp out w)) (out @ [mipmap d]) = Some Dir \<and>
       fs (snd (generate_icons P sp out w)) (out @ [mipmap d, ''ic_launcher.png'']) =
         Some (File (Encoded ''PNG''
           \<lparr>mode = ''RGBA'', size_im = (e, e),
            data = Some (resize_kernel P LANCZOS (e, e) ''RGBA'' (size_im im) px)\<rparr>) (new_stat w)) \<and>
       fs (snd (generate_icons P sp out w)) (out @ [mipmap d, ''ic_launcher_round.png'']) =
         Some (File (Encoded ''PNG'' (round_image (e, e)
           (resize_kernel P LANCZOS (e, e) ''RGBA'' (size_im im) px))) (new_stat w))"
proof -
  define w0 where "w0 = print (Loading_source_icon sp) w"
  obtain r0 w1 where ls: "load_source P sp w0 = (r0, w1)" by (cases "load_source P sp w0")
  from g ls obtain r where r0: "r0 = Inr r"
    by (cases r0) (auto simp: generate_icons_def w0_def Let_def)
  define w2 where "w2 = print Blank (print (Source_icon_size (size_im (heap w1 ! r))) w1)"
  obtain r3 w3 where lp: "icon_loop P r out densities w2 = (r3, w3)"
    by (cases "icon_loop P r out densities w2")
  from g ls r0 lp have r3: "r3 = Inr ()"
    by (cases r3) (auto simp: generate_icons_def w0_def [symmetric] w2_def [symmetric] Let_def)
  have res: "snd (generate_icons P sp out w) =
      print SUCCESS_All_Android_icons_generated (print Blank w3)"
    using ls r0 lp r3
    by (simp add: generate_icons_def w0_def [symmetric] w2_def [symmetric] Let_def)
  from load_source_Inr [OF ls [unfolded r0]] obtain im where
    im: "source_file sp w = Some im" and
    r: "r < length (heap w1)" "mode (heap w1 ! r) = ''RGBA''" "size_im (heap w1 ! r) = size_im im"
       "data (heap w1 ! r) = source_pixels P im" and
    w1: "fs w1 = fs w" "stdout w1 = stdout w @ [Loading_source_icon sp]" "new_stat w1 = new_stat w"
    by (auto simp: w0_def)
  have "data (heap w2 ! r) \<noteq> None"
    using icon_loop_undecodable [of w2 r P out] lp r3 by auto
  then obtain px where px: "source_pixels P im = Some px"
    using r(4) by (auto simp: w2_def)
  have src2: "r < length (heap w2)" "mode (heap w2 ! r) = ''RGBA''" "data (heap w2 ! r) = Some px"
    using r px by (simp_all add: w2_def)
  note le = icon_loop_effect [OF lp [unfolded r3] src2 densities_facts]
  have sq: "square_image P (heap w2 ! r) px e =
      \<lparr>mode = ''RGBA'', size_im = (e, e),
       data = Some (resize_kernel P LANCZOS (e, e) ''RGBA'' (size_im im) px)\<rparr>" for e
    using r by (simp add: square_image_def w2_def)
  have sz: "size_im (heap w2 ! r) = size_im im" using r by (simp add: w2_def)
  have f2: "fs w2 = fs w" "new_stat w2 = new_stat w" "is_dir p w2 = is_dir p w"
    "stdout w2 = stdout w @ [Loading_source_icon sp, Source_icon_size (size_im im), Blank]" for p
    using w1 r by (simp_all add: w2_def is_dir_def)
  note le' = le [unfolded sq sz f2]
  show thesis
  proof (rule that [of im px])
    show "source_file sp w = Some im" by (rule im)
    show "source_pixels P im = Some px" by (rule px)
    show "new_stat (snd (generate_icons P sp out w)) = new_stat w"
      using le' [THEN conjunct1] by (simp add: res)
    show "stdout (snd (generate_icons P sp out w)) =
      stdout w @ [Loading_source_icon sp, Source_icon_size (size_im im), Blank] @
      concat (map (\<lambda>(d, e).
        [Created (out @ [mipmap d, ''ic_launcher.png'']) e,
         Created (out @ [mipmap d, ''ic_launcher_round.png'']) e]) densities) @
      [Blank, SUCCESS_All_Android_icons_generated]"
      using le' [THEN conjunct2, THEN conjunct1] by (simp add: res)
    show "\<forall>q. fs (snd (generate_icons P sp out w)) q = fs w q \<or>
         (fs w q = None \<and> fs (snd (generate_icons P sp out w)) q = Some Dir \<and>
          (\<exists>x\<in>set densities. prefix q (out @ [mipmap (fst x)]) \<and> \<not> is_dir (out @ [mipmap (fst x)]) w)) \<or>
         (\<exists>x\<in>set densities. q = out @ [mipmap (fst x), ''ic_launcher.png''] \<or>
                      q = out @ [mipmap (fst x), ''ic_launcher_round.png''])"
      using le' [THEN conjunct2, THEN conjunct2, THEN conjunct2, THEN conjunct1]
      by (simp add: res)
    show "\<forall>(d, e)\<in>set densities.
       fs (snd (generate_icons P sp out w)) (out @ [mipmap d]) = Some Dir \<and>
       fs (snd (generate_icons P sp out w)) (out @ [mipmap d, ''ic_launcher.png'']) =
         Some (File (Encoded ''PNG''
           \<lparr>mode = ''RGBA'', size_im = (e, e),
            data = Some (resize_kernel P LANCZOS (e, e) ''RGBA'' (size_im im) px)\<rparr>) (new_stat w)) \<and>
       fs (snd (generate_icons P sp out w)) (out @ [mipmap d, ''ic_launcher_round.png'']) =
         Some (File (Encoded ''PNG'' (round_image (e, e)
           (resize_kernel P LANCZOS (e, e) ''RGBA'' (size_im im) px))) (new_stat w))"
      using le' [THEN conjunct2, THEN conjunct2, THEN conjunct2, THEN conjunct2]
      by (simp add: res)
  qed
qed

lemma generate_icons_succeeds:
  assumes im: "source_file sp w = Some im" and px: "source_pixels P im = Some px"
    and wr: "\<forall>x\<in>set densities. writable out (fst x) w"
  shows "fst (generate_icons P sp out w) = Inr True"
proof -
  define w0 where "w0 = print (Loading_source_icon sp) w"
  from load_source_ok [OF _ px, of sp w0] im obtain r w1 where
    ls: "load_source P sp w0 = (Inr r, w1)" by (auto simp: w0_def)
  from load_source_Inr [OF ls] im px have
    r: "r < length (heap w1)" "mode (heap w1 ! r) = ''RGBA''" "data (heap w1 ! r) = Some px" and
    w1: "fs w1 = fs w"
    by (auto simp: w0_def)
  define w2 where "w2 = print Blank (print (Source_icon_size (size_im (heap w1 ! r))) w1)"
  have src2: "r < length (heap w2)" "mode (heap w2 ! r) = ''RGBA''" "data (heap w2 ! r) = Some px"
    using r by (simp_all add: w2_def)
  have "\<forall>x\<in>set densities. writable out (fst x) w2"
    using wr w1 by (simp add: writable_def is_dir_def w2_def)
  from icon_loop_succeeds [OF this src2 densities_facts] obtain w3 where
    "icon_loop P r out densities w2 = (Inr (), w3)" by blast
  with ls show ?thesis
    by (simp add: generate_icons_def w0_def [symmetric] w2_def [symmetric] Let_def)
qed

lemma example_world_facts:
  "source_file [''icon.png''] (example_world im) = Some im"
  "\<forall>x\<in>set densities. writable [''res''] (fst x) (example_world im)"
  "new_stat (example_world im) = 2" "stdout (example_world im) = []"
  by (simp_all add: example_world_def source_file_def lookup_def writable_def is_dir_def
      densities_def mipmap_def)

lemma example_source_pixels:
  "source_pixels example_pillow example_icon = Some example_pixels"
  "source_pixels example_pillow example_rgb_icon =
     Some (\<lambda>xy b. if b = 3 then 255 else example_pixels xy b)"
  by (simp_all add: source_pixels_def example_icon_def example_rgb_icon_def example_pillow_def)

section \<open>The claims\<close>

text \<open>
  Claim C3. The density table is a fixed ordered mapping with exactly five entries, whose
  edge lengths are strictly increasing in the order mdpi (48), hdpi (72), xhdpi (96),
  xxhdpi (144), xxxhdpi (192), and \<open>generate_icons\<close> goes through the densities in
  exactly that order: a run that returns \<open>True\<close> has printed, after the three opening
  lines, the two "Created" lines of each density in the order of the table.
\<close>

theorem densities_table_order:
  "length densities = 5 \<and>
   map fst densities = [''mdpi'', ''hdpi'', ''xhdpi'', ''xxhdpi'', ''xxxhdpi''] \<and>
   map snd densities = [48, 72, 96, 144, 192] \<and>
   sorted_wrt (<) (map snd densities) \<and>
   (fst (generate_icons P sp out w) = Inr True \<longrightarrow>
      (\<exists>sz. stdout (snd (generate_icons P sp out w)) =
         stdout w @
         [Loading_source_icon sp, Source_icon_size sz, Blank,
          Created (out @ [''mipmap-mdpi'', ''ic_launcher.png'']) 48,
          Created (out @ [''mipmap-mdpi'', ''ic_launcher_round.png'']) 48,
          Created (out @ [''mipmap-hdpi'', ''ic_launcher.png'']) 72,
          Created (out @ [''mipmap-hdpi'', ''ic_launcher_round.png'']) 72,
          Created (out @ [''mipmap-xhdpi'', ''ic_launcher.png'']) 96,
          Created (out @ [''mipmap-xhdpi'', ''ic_launcher_round.png'']) 96,
          Created (out @ [''mipmap-xxhdpi'', ''ic_launcher.png'']) 144,
          Created (out @ [''mipmap-xxhdpi'', ''ic_launcher_round.png'']) 144,
          Created (out @ [''mipmap-xxxhdpi'', ''ic_launcher.png'']) 192,
          Created (out @ [''mipmap-xxxhdpi'', ''ic_launcher_round.png'']) 192,
          Blank, SUCCESS_All_Android_icons_generated]))"
proof -
  have "\<exists>sz. stdout (snd (generate_icons P sp out w)) =
         stdout w @
         [Loading_source_icon sp, Source_icon_size sz, Blank,
          Created (out @ [''mipmap-mdpi'', ''ic_launcher.png'']) 48,
          Created (out @ [''mipmap-mdpi'', ''ic_launcher_round.png'']) 48,
          Created (out @ [''mipmap-hdpi'', ''ic_launcher.png'']) 72,
          Created (out @ [''mipmap-hdpi'', ''ic_launcher_round.png'']) 72,
          Created (out @ [''mipmap-xhdpi'', ''ic_launcher.png'']) 96,
          Created (out @ [''mipmap-xhdpi'', ''ic_launcher_round.png'']) 96,
          Created (out @ [''mipmap-xxhdpi'', ''ic_launcher.png'']) 144,
          Created (out @ [''mipmap-xxhdpi'', ''ic_launcher_round.png'']) 144,
          Created (out @ [''mipmap-xxxhdpi'', ''ic_launcher.png'']) 192,
          Created (out @ [''mipmap-xxxhdpi'', ''ic_launcher_round.png'']) 192,
          Blank, SUCCESS_All_Android_icons_generated]"
    if "fst (generate_icons P sp out w) = Inr True"
    using that
  proof (rule generate_icons_True)
    fix im
    assume "stdout (snd (generate_icons P sp out w)) =
      stdout w @ [Loading_source_icon sp, Source_icon_size (size_im im), Blank] @
      concat (map (\<lambda>(d, e).
        [Created (out @ [mipmap d, ''ic_launcher.png'']) e,
         Created (out @ [mipmap d, ''ic_launcher_round.png'']) e]) densities) @
      [Blank, SUCCESS_All_Android_icons_generated]"
    then show ?thesis by (simp add: densities_def mipmap_def)
  qed
  then show ?thesis by (simp add: densities_def)
qed

theorem densities_table_order_witness:
  "fst (generate_icons example_pillow [''icon.png''] [''res''] (example_world example_icon)) = Inr True \<and>
   (\<exists>sz. stdout (snd (generate_icons example_pillow [''icon.png''] [''res''] (example_world example_icon))) =
         [Loading_source_icon [''icon.png''], Source_icon_size sz, Blank,
          Created [''res'', ''mipmap-mdpi'', ''ic_launcher.png''] 48,
          Created [''res'', ''mipmap-mdpi'', ''ic_launcher_round.png''] 48,
          Created [''res'', ''mipmap-hdpi'', ''ic_launcher.png''] 72,
          Created [''res'', ''mipmap-hdpi'', ''ic_launcher_round.png''] 72,
          Created [''res'', ''mipmap-xhdpi'', ''ic_launcher.png''] 96,
          Created [''res'', ''mipmap-xhdpi'', ''ic_launcher_round.png''] 96,
          Created [''res'', ''mipmap-xxhdpi'', ''ic_launcher.png''] 144,
          Created [''res'', ''mipmap-xxhdpi'', ''ic_launcher_round.png''] 144,
          Created [''res'', ''mipmap-xxxhdpi'', ''ic_launcher.png''] 192,
          Created [''res'', ''mipmap-xxxhdpi'', ''ic_launcher_round.png''] 192,
          Blank, SUCCESS_All_Android_icons_generated])"
proof -
  have t: "fst (generate_icons example_pillow [''icon.png''] [''res''] (example_world example_icon)) = Inr True"
    by (rule generate_icons_succeeds [OF example_world_facts(1) example_source_pixels(1) example_world_facts(2)])
  show ?thesis
    using t densities_table_order [of example_pillow "[''icon.png'']" "[''res'']" "example_world example_icon"]
    by (simp add: example_world_facts)
qed

text \<open>
  Claim C6. If the source icon path does not exist, \<open>main\<close> ends with a non-zero exit
  status and the file system (and the heap) is as it was: no output directory has been
  created. If the destination root does not exist, \<open>main\<close> ends with a non-zero exit
  status and the file system is as it was: no image has been written.
\<close>

theorem main_missing_paths_exit:
  "(\<not> exists (project_root @ [''assets'', ''icon.png'']) w \<longrightarrow>
      status (fst (main P project_root w)) \<noteq> 0 \<and>
      fs (snd (main P project_root w)) = fs w \<and> heap (snd (main P project_root w)) = heap w) \<and>
   (\<not> exists (project_root @ [''android'', ''app'', ''src'', ''main'', ''res'']) w \<longrightarrow>
      status (fst (main P project_root w)) \<noteq> 0 \<and>
      fs (snd (main P project_root w)) = fs w \<and> heap (snd (main P project_root w)) = heap w)"
  by (simp add: main_def joinpath_single Let_def)

theorem main_missing_paths_exit_witness:
  "\<not> exists ([''proj''] @ [''assets'', ''icon.png'']) example_empty_world \<and>
   \<not> exists ([''proj''] @ [''android'', ''app'', ''src'', ''main'', ''res'']) example_empty_world \<and>
   status (fst (main example_pillow [''proj''] example_empty_world)) \<noteq> 0 \<and>
   fs (snd (main example_pillow [''proj''] example_empty_world)) = fs example_empty_world \<and>
   heap (snd (main example_pillow [''proj''] example_empty_world)) = heap example_empty_world"
  using main_missing_paths_exit [of "[''proj'']" example_empty_world example_pillow]
  by (simp add: exists_def lookup_def example_empty_world_def)

lemma example_stale_world_facts:
  "source_file [''icon.png''] example_stale_world = Some example_icon"
  "\<forall>x\<in>set densities. writable [''res''] (fst x) example_stale_world"
  "new_stat example_stale_world = 2"
  "fs example_stale_world [''res'', ''mipmap-mdpi'', ''ic_launcher.png''] = Some (File (Text ''old icon'') 1)"
  by (simp_all add: example_stale_world_def source_file_def lookup_def writable_def is_dir_def
      densities_def mipmap_def)

lemma generate_icons_keeps:
  assumes "fst (generate_icons P sp out w) = Inr True" and "fs w q \<noteq> None"
    and "\<forall>x\<in>set densities. q \<noteq> out @ [mipmap (fst x), ''ic_launcher.png''] \<and>
                      q \<noteq> out @ [mipmap (fst x), ''ic_launcher_round.png'']"
  shows "fs (snd (generate_icons P sp out w)) q = fs w q"
  using assms(1)
proof (rule generate_icons_True)
  assume "\<forall>q. fs (snd (generate_icons P sp out w)) q = fs w q \<or>
         (fs w q = None \<and> fs (snd (generate_icons P sp out w)) q = Some Dir \<and>
          (\<exists>x\<in>set densities. prefix q (out @ [mipmap (fst x)]) \<and> \<not> is_dir (out @ [mipmap (fst x)]) w)) \<or>
         (\<exists>x\<in>set densities. q = out @ [mipmap (fst x), ''ic_launcher.png''] \<or>
                      q = out @ [mipmap (fst x), ''ic_launcher_round.png''])"
  from this [rule_format, of q] assms(2,3) show ?thesis by blast
qed

text \<open>
  Claim C2. For each of the five densities, \<open>generate_icons\<close> produces a square resized
  image of exactly (edge, edge) pixels with the Lanczos filter and writes it as
  \<open>ic_launcher.png\<close> in the \<open>mipmap\<close> directory of that density, whatever was at that
  path before. Stated for a source that opens and decodes and an output tree that accepts
  the icons: the run returns \<open>True\<close>, and afterwards the file at
  \<open>out/mipmap-d/ic_launcher.png\<close> is the PNG encoding of the \<open>RGBA\<close> image of size
  \<open>(e, e)\<close> whose pixels are the Lanczos resize kernel applied to the source pixels.
\<close>

theorem generate_icons_square_icons:
  assumes "source_file sp w = Some im" and "source_pixels P im = Some px"
    and "\<forall>x\<in>set densities. writable out (fst x) w"
  shows "fst (generate_icons P sp out w) = Inr True \<and>
    (\<forall>(d, e)\<in>set densities.
       joinpath (joinpath out (mipmap d)) ''ic_launcher.png'' = out @ [mipmap d, ''ic_launcher.png''] \<and>
       fs (snd (generate_icons P sp out w)) (out @ [mipmap d, ''ic_launcher.png'']) =
         Some (File (Encoded ''PNG''
           \<lparr>mode = ''RGBA'', size_im = (e, e),
            data = Some (resize_kernel P LANCZOS (e, e) ''RGBA'' (size_im im) px)\<rparr>) (new_stat w)))"
proof -
  have t: "fst (generate_icons P sp out w) = Inr True"
    using assms by (rule generate_icons_succeeds)
  have j: "\<forall>(d, e)\<in>set densities.
       joinpath (joinpath out (mipmap d)) ''ic_launcher.png'' = out @ [mipmap d, ''ic_launcher.png'']"
    using densities_facts(1) by auto
  from t have "\<forall>(d, e)\<in>set densities.
       fs (snd (generate_icons P sp out w)) (out @ [mipmap d, ''ic_launcher.png'']) =
         Some (File (Encoded ''PNG''
           \<lparr>mode = ''RGBA'', size_im = (e, e),
            data = Some (resize_kernel P LANCZOS (e, e) ''RGBA'' (size_im im) px)\<rparr>) (new_stat w))"
  proof (rule generate_icons_True)
    fix im' px'
    assume "source_file sp w = Some im'" "source_pixels P im' = Some px'"
      and p: "\<forall>(d, e)\<in>set densities.
       fs (snd (generate_icons P sp out w)) (out @ [mipmap d]) = Some Dir \<and>
       fs (snd (generate_icons P sp out w)) (out @ [mipmap d, ''ic_launcher.png'']) =
         Some (File (Encoded ''PNG''
           \<lparr>mode = ''RGBA'', size_im = (e, e),
            data = Some (resize_kernel P LANCZOS (e, e) ''RGBA'' (size_im im') px')\<rparr>) (new_stat w)) \<and>
       fs (snd (generate_icons P sp out w)) (out @ [mipmap d, ''ic_launcher_round.png'']) =
         Some (File (Encoded ''PNG'' (round_image (e, e)
           (resize_kernel P LANCZOS (e, e) ''RGBA'' (size_im im') px'))) (new_stat w))"
    with assms(1,2) have "im' = im" "px' = px" by simp_all
    with p show ?thesis by (simp add: case_prod_unfold)
  qed
  with t j show ?thesis by (simp add: case_prod_unfold)
qed

theorem generate_icons_square_icons_witness:
  "source_file [''icon.png''] example_stale_world = Some example_icon \<and>
   source_pixels example_pillow example_icon = Some example_pixels \<and>
   writable [''res''] ''mdpi'' example_stale_world \<and> writable [''res''] ''hdpi'' example_stale_world \<and>
   writable [''res''] ''xhdpi'' example_stale_world \<and> writable [''res''] ''xxhdpi'' example_stale_world \<and>
   writable [''res''] ''xxxhdpi'' example_stale_world \<and>
   fs example_stale_world [''res'', ''mipmap-mdpi'', ''ic_launcher.png''] = Some (File (Text ''old icon'') 1) \<and>
   fst (generate_icons example_pillow [''icon.png''] [''res''] example_stale_world) = Inr True \<and>
   fs (snd (generate_icons example_pillow [''icon.png''] [''res''] example_stale_world))
      [''res'', ''mipmap-mdpi'', ''ic_launcher.png''] =
     Some (File (Encoded ''PNG''
       \<lparr>mode = ''RGBA'', size_im = (48, 48),
        data = Some (resize_kernel example_pillow LANCZOS (48, 48) ''RGBA'' (2, 2) example_pixels)\<rparr>) 2) \<and>
   fs (snd (generate_icons example_pillow [''icon.png''] [''res''] example_stale_world))
      [''res'', ''mipmap-xxxhdpi'', ''ic_launcher.png''] =
     Some (File (Encoded ''PNG''
       \<lparr>mode = ''RGBA'', size_im = (192, 192),
        data = Some (resize_kernel example_pillow LANCZOS (192, 192) ''RGBA'' (2, 2) example_pixels)\<rparr>) 2)"
  using generate_icons_square_icons [OF example_stale_world_facts(1) example_source_pixels(1)
      example_stale_world_facts(2)]
    example_stale_world_facts example_source_pixels(1)
  by (simp add: densities_def example_icon_def mipmap_def)

text \<open>
  Claim C4. A source image whose mode is not \<open>RGBA\<close> (so every mode without an alpha
  channel) is converted to \<open>RGBA\<close> before any resizing: in a run that returns \<open>True\<close>
  the pixels handed to the resize kernel are the converted ones, with mode \<open>RGBA\<close>, and
  every square icon and every round icon written is an \<open>RGBA\<close> image.
\<close>

theorem generate_icons_outputs_RGBA:
  assumes "fst (generate_icons P sp out w) = Inr True"
  shows "\<exists>im px. source_file sp w = Some im \<and>
     (mode im \<noteq> ''RGBA'' \<longrightarrow>
        (\<exists>px0. data im = Some px0 \<and>
               convert_kernel P ''RGBA'' (mode im) (size_im im) px0 = Some px)) \<and>
     (mode im = ''RGBA'' \<longrightarrow> data im = Some px) \<and>
     (\<forall>(d, e)\<in>set densities. \<exists>sq rd.
        fs (snd (generate_icons P sp out w)) (out @ [mipmap d, ''ic_launcher.png'']) =
          Some (File (Encoded ''PNG'' sq) (new_stat w)) \<and>
        fs (snd (generate_icons P sp out w)) (out @ [mipmap d, ''ic_launcher_round.png'']) =
          Some (File (Encoded ''PNG'' rd) (new_stat w)) \<and>
        mode sq = ''RGBA'' \<and> mode rd = ''RGBA'' \<and>
        data sq = Some (resize_kernel P LANCZOS (e, e) ''RGBA'' (size_im im) px))"
  using assms
proof (rule generate_icons_True)
  fix im px
  assume im: "source_file sp w = Some im" and px: "source_pixels P im = Some px"
    and p: "\<forall>(d, e)\<in>set densities.
       fs (snd (generate_icons P sp out w)) (out @ [mipmap d]) = Some Dir \<and>
       fs (snd (generate_icons P sp out w)) (out @ [mipmap d, ''ic_launcher.png'']) =
         Some (File (Encoded ''PNG''
           \<lparr>mode = ''RGBA'', size_im = (e, e),
            data = Some (resize_kernel P LANCZOS (e, e) ''RGBA'' (size_im im) px)\<rparr>) (new_stat w)) \<and>
       fs (snd (generate_icons P sp out w)) (out @ [mipmap d, ''ic_launcher_round.png'']) =
         Some (File (Encoded ''PNG'' (round_image (e, e)
           (resize_kernel P LANCZOS (e, e) ''RGBA'' (size_im im) px))) (new_stat w))"
  have c: "mode im \<noteq> ''RGBA'' \<longrightarrow>
        (\<exists>px0. data im = Some px0 \<and>
               convert_kernel P ''RGBA'' (mode im) (size_im im) px0 = Some px)"
    using px by (auto simp: source_pixels_def split: option.splits if_splits)
  have r: "mode im = ''RGBA'' \<longrightarrow> data im = Some px"
    using px by (auto simp: source_pixels_def)
  have "\<forall>(d, e)\<in>set densities. \<exists>sq rd.
        fs (snd (generate_icons P sp out w)) (out @ [mipmap d, ''ic_launcher.png'']) =
          Some (File (Encoded ''PNG'' sq) (new_stat w)) \<and>
        fs (snd (generate_icons P sp out w)) (out @ [mipmap d, ''ic_launcher_round.png'']) =
          Some (File (Encoded ''PNG'' rd) (new_stat w)) \<and>
        mode sq = ''RGBA'' \<and> mode rd = ''RGBA'' \<and>
        data sq = Some (resize_kernel P LANCZOS (e, e) ''RGBA'' (size_im im) px)"
  proof (clarify)
    fix d e assume "(d, e) \<in> set densities"
    with p have
      "fs (snd (generate_icons P sp out w)) (out @ [mipmap d, ''ic_launcher.png'']) =
         Some (File (Encoded ''PNG''
           \<lparr>mode = ''RGBA'', size_im = (e, e),
            data = Some (resize_kernel P LANCZOS (e, e) ''RGBA'' (size_im im) px)\<rparr>) (new_stat w))"
      "fs (snd (generate_icons P sp out w)) (out @ [mipmap d, ''ic_launcher_round.png'']) =
         Some (File (Encoded ''PNG'' (round_image (e, e)
           (resize_kernel P LANCZOS (e, e) ''RGBA'' (size_im im) px))) (new_stat w))"
      by auto
    then show "\<exists>sq rd.
        fs (snd (generate_icons P sp out w)) (out @ [mipmap d, ''ic_launcher.png'']) =
          Some (File (Encoded ''PNG'' sq) (new_stat w)) \<and>
        fs (snd (generate_icons P sp out w)) (out @ [mipmap d, ''ic_launcher_round.png'']) =
          Some (File (Encoded ''PNG'' rd) (new_stat w)) \<and>
        mode sq = ''RGBA'' \<and> mode rd = ''RGBA'' \<and>
        data sq = Some (resize_kernel P LANCZOS (e, e) ''RGBA'' (size_im im) px)"
      by (simp add: round_image_def)
  qed
  with im c r show ?thesis by blast
qed

theorem generate_icons_outputs_RGBA_witness:
  "fst (generate_icons example_pillow [''icon.png''] [''res''] (example_world example_rgb_icon)) = Inr True \<and>
   (\<exists>im px. source_file [''icon.png''] (example_world example_rgb_icon) = Some im \<and>
     mode im \<noteq> ''RGBA'' \<and>
     (\<exists>px0. data im = Some px0 \<and>
            convert_kernel example_pillow ''RGBA'' (mode im) (size_im im) px0 = Some px) \<and>
     (\<forall>(d, e)\<in>set densities. \<exists>sq rd.
        fs (snd (generate_icons example_pillow [''icon.png''] [''res''] (example_world example_rgb_icon)))
           ([''res''] @ [mipmap d, ''ic_launcher.png'']) =
          Some (File (Encoded ''PNG'' sq) (new_stat (example_world example_rgb_icon))) \<and>
        fs (snd (generate_icons example_pillow [''icon.png''] [''res''] (example_world example_rgb_icon)))
           ([''res''] @ [mipmap d, ''ic_launcher_round.png'']) =
          Some (File (Encoded ''PNG'' rd) (new_stat (example_world example_rgb_icon))) \<and>
        mode sq = ''RGBA'' \<and> mode rd = ''RGBA'' \<and>
        data sq = Some (resize_kernel example_pillow LANCZOS (e, e) ''RGBA'' (size_im im) px)))"
proof -
  have t: "fst (generate_icons example_pillow [''icon.png''] [''res''] (example_world example_rgb_icon)) = Inr True"
    by (rule generate_icons_succeeds [OF example_world_facts(1) example_source_pixels(2) example_world_facts(2)])
  have m: "mode example_rgb_icon \<noteq> ''RGBA''" by (simp add: example_rgb_icon_def)
  from generate_icons_outputs_RGBA [OF t] m t show ?thesis
    by (simp add: example_world_facts(1))
qed

text \<open>
  Claim C7. Generating the icons twice with an unchanged source icon is idempotent: when a
  first run has returned \<open>True\<close>, a second run on the file system the first one left
  returns \<open>True\<close> as well (the directories and files already there raise no error) and
  leaves every path with the same kind of node and the same file data; only the metadata
  of the rewritten files is that of the second run, and with equal metadata the file
  system is unchanged.
\<close>

theorem generate_icons_idempotent:
  assumes run1: "fst (generate_icons P sp out w) = Inr True"
    and v: "fs v = fs (snd (generate_icons P sp out w))"
    and same: "source_file sp v = source_file sp w"
  shows "fst (generate_icons P sp out v) = Inr True \<and>
     (\<forall>q. map_option (map_node (\<lambda>st. ())) (fs (snd (generate_icons P sp out v)) q) =
          map_option (map_node (\<lambda>st. ())) (fs v q)) \<and>
     (new_stat v = new_stat w \<longrightarrow> fs (snd (generate_icons P sp out v)) = fs v)"
  using run1
proof (rule generate_icons_True)
  fix im px
  assume im: "source_file sp w = Some im" and px: "source_pixels P im = Some px"
    and p1: "\<forall>(d, e)\<in>set densities.
       fs (snd (generate_icons P sp out w)) (out @ [mipmap d]) = Some Dir \<and>
       fs (snd (generate_icons P sp out w)) (out @ [mipmap d, ''ic_launcher.png'']) =
         Some (File (Encoded ''PNG''
           \<lparr>mode = ''RGBA'', size_im = (e, e),
            data = Some (resize_kernel P LANCZOS (e, e) ''RGBA'' (size_im im) px)\<rparr>) (new_stat w)) \<and>
       fs (snd (generate_icons P sp out w)) (out @ [mipmap d, ''ic_launcher_round.png'']) =
         Some (File (Encoded ''PNG'' (round_image (e, e)
           (resize_kernel P LANCZOS (e, e) ''RGBA'' (size_im im) px))) (new_stat w))"
  have dirs: "is_dir (out @ [mipmap (fst x)]) v" if "x \<in> set densities" for x
    using p1 that v by (auto simp: is_dir_def lookup_def)
  have wr: "\<forall>x\<in>set densities. writable out (fst x) v"
    using p1 v by (auto simp: writable_def is_dir_def lookup_def)
  have run2: "fst (generate_icons P sp out v) = Inr True"
    using same [unfolded im] px wr by (rule generate_icons_succeeds)
  from run2 have cmp: "\<forall>q. map_option (map_node (\<lambda>st. ())) (fs (snd (generate_icons P sp out v)) q) =
          map_option (map_node (\<lambda>st. ())) (fs v q) \<and>
          (new_stat v = new_stat w \<longrightarrow> fs (snd (generate_icons P sp out v)) q = fs v q)"
  proof (rule generate_icons_True)
    fix im' px'
    assume "source_file sp v = Some im'" "source_pixels P im' = Some px'"
      and f2: "\<forall>q. fs (snd (generate_icons P sp out v)) q = fs v q \<or>
         (fs v q = None \<and> fs (snd (generate_icons P sp out v)) q = Some Dir \<and>
          (\<exists>x\<in>set densities. prefix q (out @ [mipmap (fst x)]) \<and> \<not> is_dir (out @ [mipmap (fst x)]) v)) \<or>
         (\<exists>x\<in>set densities. q = out @ [mipmap (fst x), ''ic_launcher.png''] \<or>
                      q = out @ [mipmap (fst x), ''ic_launcher_round.png''])"
      and p2: "\<forall>(d, e)\<in>set densities.
       fs (snd (generate_icons P sp out v)) (out @ [mipmap d]) = Some Dir \<and>
       fs (snd (generate_icons P sp out v)) (out @ [mipmap d, ''ic_launcher.png'']) =
         Some (File (Encoded ''PNG''
           \<lparr>mode = ''RGBA'', size_im = (e, e),
            data = Some (resize_kernel P LANCZOS (e, e) ''RGBA'' (size_im im') px')\<rparr>) (new_stat v)) \<and>
       fs (snd (generate_icons P sp out v)) (out @ [mipmap d, ''ic_launcher_round.png'']) =
         Some (File (Encoded ''PNG'' (round_image (e, e)
           (resize_kernel P LANCZOS (e, e) ''RGBA'' (size_im im') px'))) (new_stat v))"
    with same im px have eq: "im' = im" "px' = px" by simp_all
    show ?thesis
    proof
      fix q
      from f2 [rule_format, of q] dirs
      consider "fs (snd (generate_icons P sp out v)) q = fs v q"
        | x where "x \<in> set densities" "q = out @ [mipmap (fst x), ''ic_launcher.png'']"
        | x where "x \<in> set densities" "q = out @ [mipmap (fst x), ''ic_launcher_round.png'']"
        by blast
      then show "map_option (map_node (\<lambda>st. ())) (fs (snd (generate_icons P sp out v)) q) =
          map_option (map_node (\<lambda>st. ())) (fs v q) \<and>
          (new_stat v = new_stat w \<longrightarrow> fs (snd (generate_icons P sp out v)) q = fs v q)"
      proof cases
        case 1
        then show ?thesis by simp
      next
        case 2
        with p1 p2 v eq show ?thesis by (auto simp: case_prod_unfold)
      next
        case 3
        with p1 p2 v eq show ?thesis by (auto simp: case_prod_unfold)
      qed
    qed
  qed
  from run2 cmp show ?thesis by (auto simp: fun_eq_iff)
qed

theorem generate_icons_idempotent_witness:
  "fst (generate_icons example_pillow [''icon.png''] [''res''] (example_world example_icon)) = Inr True \<and>
   fs ((snd (generate_icons example_pillow [''icon.png''] [''res''] (example_world example_icon)))
         \<lparr>heap := [], stdout := [], new_stat := 3\<rparr>) =
     fs (snd (generate_icons example_pillow [''icon.png''] [''res''] (example_world example_icon))) \<and>
   source_file [''icon.png'']
     ((snd (generate_icons example_pillow [''icon.png''] [''res''] (example_world example_icon)))
         \<lparr>heap := [], stdout := [], new_stat := 3\<rparr>) =
     source_file [''icon.png''] (example_world example_icon) \<and>
   fst (generate_icons example_pillow [''icon.png''] [''res'']
     ((snd (generate_icons example_pillow [''icon.png''] [''res''] (example_world example_icon)))
         \<lparr>heap := [], stdout := [], new_stat := 3\<rparr>)) = Inr True \<and>
   (\<forall>q. map_option (map_node (\<lambda>st. ())) (fs (snd (generate_icons example_pillow [''icon.png''] [''res'']
        ((snd (generate_icons example_pillow [''icon.png''] [''res''] (example_world example_icon)))
         \<lparr>heap := [], stdout := [], new_stat := 3\<rparr>))) q) =
      map_option (map_node (\<lambda>st. ()))
        (fs (snd (generate_icons example_pillow [''icon.png''] [''res''] (example_world example_icon))) q))"
proof -
  let ?w = "example_world example_icon"
  let ?g = "generate_icons example_pillow [''icon.png''] [''res''] ?w"
  let ?v = "(snd ?g)\<lparr>heap := [], stdout := [], new_stat := 3\<rparr>"
  have t: "fst ?g = Inr True"
    by (rule generate_icons_succeeds [OF example_world_facts(1) example_source_pixels(1) example_world_facts(2)])
  have k: "fs (snd ?g) [''icon.png''] = fs ?w [''icon.png'']"
    by (rule generate_icons_keeps [OF t]) (simp_all add: example_world_def)
  have s: "source_file [''icon.png''] ?v = source_file [''icon.png''] ?w"
    using k by (simp add: source_file_def lookup_def)
  have f: "fs ?v = fs (snd ?g)" by simp
  show ?thesis
    using generate_icons_idempotent [OF t f s] t s by simp
qed

lemma quarter_points_8:
  "quarter_points 8 8 (8, 0) = [(8, 0), (8, 2), (6, 4), (6, 6), (4, 6), (2, 8), (0, 8)]"
  by (simp add: quarter_points.simps quarter_next_def quarter_delta_def Let_def)


lemma ellipse_rows_8:
  "map (\<lambda>x. ellipse_filled (0, 0, 8, 8) (x, 0)) [0, 1, 2, 3, 4, 5, 6, 7] =
     [False, False, False, True, True, True, False, False]"
  "map (\<lambda>x. ellipse_filled (0, 0, 8, 8) (x, 7)) [0, 1, 2, 3, 4, 5, 6, 7] =
     [False, True, True, True, True, True, True, True]"
  by (simp_all add: ellipse_filled_def row_right_def quarter_points_8)

lemma ellipse_filled_2:
  "map (\<lambda>xy. ellipse_filled (0, 0, 2, 2) xy) [(0, 0), (1, 0), (0, 1), (1, 1)] =
     [False, True, True, True]"
  by (simp add: ellipse_filled_def row_right_def quarter_points.simps quarter_next_def
      quarter_delta_def Let_def)

lemma ellipse_filled_48:
  "ellipse_filled (0, 0, 48, 48) (47, 16)" "outside_inscribed_ellipse (48, 48) (47, 16)"
  by (simp_all add: ellipse_filled_def row_right_def quarter_points.simps quarter_next_def
      quarter_delta_def Let_def outside_inscribed_ellipse_def axis_gap_def)
















text \<open>
  The condition \<open>outside_inscribed_ellipse\<close> is sound: no point \<open>(u/k, v/k)\<close> of the
  square that the pixel covers lies in the inscribed ellipse.
\<close>

lemma axis_gap_le:
  assumes "0 < k" "k * int x \<le> u" "u \<le> k * (int x + 1)"
  shows "\<bar>k * axis_gap n x\<bar> \<le> \<bar>2 * u - k * int n\<bar>"
proof -
  have g: "0 \<le> axis_gap n x" by (simp add: axis_gap_def)
  then have a: "\<bar>k * axis_gap n x\<bar> = k * axis_gap n x"
    using assms(1) by (simp add: abs_mult)
  consider "2 * int x + 2 < int n" | "int n < 2 * int x"
    | "int n \<le> 2 * int x + 2" "2 * int x \<le> int n" by linarith
  then have "k * axis_gap n x \<le> \<bar>2 * u - k * int n\<bar>"
  proof cases
    case 1
    then have "k * axis_gap n x = k * int n - 2 * (k * (int x + 1))"
      by (simp add: axis_gap_def algebra_simps)
    with assms(3) show ?thesis by linarith
  next
    case 2
    then have "k * axis_gap n x = 2 * (k * int x) - k * int n"
      by (simp add: axis_gap_def algebra_simps)
    with assms(2) show ?thesis by linarith
  next
    case 3
    then have "axis_gap n x = 0" by (simp add: axis_gap_def)
    then show ?thesis by simp
  qed
  with a show ?thesis by simp
qed

lemma outside_inscribed_ellipse_points:
  assumes o: "outside_inscribed_ellipse (w, h) (x, y)" and k: "0 < k"
    and u: "k * int x \<le> u" "u \<le> k * (int x + 1)"
    and v: "k * int y \<le> v" "v \<le> k * (int y + 1)"
  shows "\<not> in_inscribed_ellipse (w, h) k (u, v)"
proof -
  define W where "W = (int w)\<^sup>2"
  define H where "H = (int h)\<^sup>2"
  define gx where "gx = axis_gap w x"
  define gy where "gy = axis_gap h y"
  have WH: "0 \<le> W" "0 \<le> H" by (simp_all add: W_def H_def)
  have a: "(k * gx)\<^sup>2 \<le> (2 * u - k * int w)\<^sup>2"
    using axis_gap_le [OF k u, of w] unfolding gx_def by (simp only: abs_le_square_iff)
  have b: "(k * gy)\<^sup>2 \<le> (2 * v - k * int h)\<^sup>2"
    using axis_gap_le [OF k v, of h] unfolding gy_def by (simp only: abs_le_square_iff)
  have o': "W * H < gx\<^sup>2 * H + gy\<^sup>2 * W"
    using o by (simp add: outside_inscribed_ellipse_def W_def H_def gx_def gy_def)
  have "0 < k\<^sup>2" using k by simp
  with o' have "k\<^sup>2 * (W * H) < k\<^sup>2 * (gx\<^sup>2 * H + gy\<^sup>2 * W)"
    by (rule mult_strict_left_mono)
  also have "\<dots> = (k * gx)\<^sup>2 * H + (k * gy)\<^sup>2 * W"
    by (simp add: power_mult_distrib algebra_simps)
  also have "\<dots> \<le> (2 * u - k * int w)\<^sup>2 * H + (2 * v - k * int h)\<^sup>2 * W"
    by (intro add_mono mult_right_mono a b WH)
  finally have "\<not> (2 * u - k * int w)\<^sup>2 * H + (2 * v - k * int h)\<^sup>2 * W \<le> k\<^sup>2 * (W * H)"
    by simp
  then show ?thesis by (simp add: in_inscribed_ellipse_def W_def H_def)
qed



lemma create_round_icon_frame:
  assumes "sq < length (heap w)"
  shows "fs (snd (create_round_icon P sq w)) = fs w \<and>
     stdout (snd (create_round_icon P sq w)) = stdout w \<and>
     new_stat (snd (create_round_icon P sq w)) = new_stat w \<and>
     length (heap w) \<le> length (heap (snd (create_round_icon P sq w))) \<and>
     (\<forall>i<length (heap w). heap (snd (create_round_icon P sq w)) ! i = heap w ! i) \<and>
     (\<forall>r. fst (create_round_icon P sq w) = Inr r \<longrightarrow> length (heap w) \<le> r)"
  using assms
  by (auto simp: create_round_icon_def Image_new_def alloc_def ImageDraw_ellipse_def store_def
      Image_paste_def Image_putalpha_def alpha_band_def Let_def nth_append list_update_append
      Image_convert_def
      split: option.splits prod.splits sum.splits if_splits)




text \<open>
  Claim C10. \<open>create_round_icon\<close> does not change its input image: every object that
  was on the heap before the call, the input among them, is the same afterwards, the
  returned object is a new one, and the file system is untouched. In the loop every
  density's square icon is resized from the source object, which the loop leaves
  unchanged: for any list of densities, in any order, the files written for an entry
  depend on the source and on that entry's edge length only.
\<close>

theorem round_icon_and_densities_independent:
  "(sq < length (heap w) \<longrightarrow>
      heap (snd (create_round_icon P sq w)) ! sq = heap w ! sq \<and>
      (\<forall>i<length (heap w). heap (snd (create_round_icon P sq w)) ! i = heap w ! i) \<and>
      (\<forall>r. fst (create_round_icon P sq w) = Inr r \<longrightarrow> length (heap w) \<le> r) \<and>
      fs (snd (create_round_icon P sq w)) = fs w) \<and>
   (src < length (heap w) \<and> mode (heap w ! src) = ''RGBA'' \<and> data (heap w ! src) = Some px \<and>
    (\<forall>x\<in>set ds. CHR ''/'' \<notin> set (fst x)) \<and> distinct (map fst ds) \<and>
    fst (icon_loop P src out ds w) = Inr () \<longrightarrow>
      heap (snd (icon_loop P src out ds w)) ! src = heap w ! src \<and>
      (\<forall>(d, e)\<in>set ds.
         fs (snd (icon_loop P src out ds w)) (out @ [mipmap d, ''ic_launcher.png'']) =
           Some (File (Encoded ''PNG''
             \<lparr>mode = ''RGBA'', size_im = (e, e),
              data = Some (resize_kernel P LANCZOS (e, e) ''RGBA'' (size_im (heap w ! src)) px)\<rparr>)
             (new_stat w)) \<and>
         fs (snd (icon_loop P src out ds w)) (out @ [mipmap d, ''ic_launcher_round.png'']) =
           Some (File (Encoded ''PNG'' (round_image (e, e)
             (resize_kernel P LANCZOS (e, e) ''RGBA'' (size_im (heap w ! src)) px)))
             (new_stat w))))"
proof (intro conjI impI)
  assume "sq < length (heap w)"
  from create_round_icon_frame [OF this, of P] this
  show "heap (snd (create_round_icon P sq w)) ! sq = heap w ! sq"
    and "\<forall>i<length (heap w). heap (snd (create_round_icon P sq w)) ! i = heap w ! i"
    and "\<forall>r. fst (create_round_icon P sq w) = Inr r \<longrightarrow> length (heap w) \<le> r"
    and "fs (snd (create_round_icon P sq w)) = fs w"
    by simp_all
next
  assume a: "src < length (heap w) \<and> mode (heap w ! src) = ''RGBA'' \<and> data (heap w ! src) = Some px \<and>
    (\<forall>x\<in>set ds. CHR ''/'' \<notin> set (fst x)) \<and> distinct (map fst ds) \<and>
    fst (icon_loop P src out ds w) = Inr ()"
  then have l: "icon_loop P src out ds w = (Inr (), snd (icon_loop P src out ds w))"
    by (cases "icon_loop P src out ds w") simp
  from a have src: "src < length (heap w)" "mode (heap w ! src) = ''RGBA''" "data (heap w ! src) = Some px"
    and ds: "\<forall>x\<in>set ds. CHR ''/'' \<notin> set (fst x)" "distinct (map fst ds)"
    by simp_all
  note le = icon_loop_effect [OF l src ds]
  from le [THEN conjunct2, THEN conjunct2, THEN conjunct1] src(1)
  show "heap (snd (icon_loop P src out ds w)) ! src = heap w ! src"
    by (auto simp: nth_append)
  from le [THEN conjunct2, THEN conjunct2, THEN conjunct2, THEN conjunct2] src(2)
  show "\<forall>(d, e)\<in>set ds.
         fs (snd (icon_loop P src out ds w)) (out @ [mipmap d, ''ic_launcher.png'']) =
           Some (File (Encoded ''PNG''
             \<lparr>mode = ''RGBA'', size_im = (e, e),
              data = Some (resize_kernel P LANCZOS (e, e) ''RGBA'' (size_im (heap w ! src)) px)\<rparr>)
             (new_stat w)) \<and>
         fs (snd (icon_loop P src out ds w)) (out @ [mipmap d, ''ic_launcher_round.png'']) =
           Some (File (Encoded ''PNG'' (round_image (e, e)
             (resize_kernel P LANCZOS (e, e) ''RGBA'' (size_im (heap w ! src)) px)))
             (new_stat w))"
    by (simp add: square_image_def case_prod_unfold)
qed

theorem round_icon_and_densities_independent_witness:
  "0 < length (heap example_heap_world) \<and>
   heap (snd (create_round_icon example_pillow 0 example_heap_world)) ! 0 = example_big_icon \<and>
   mode (heap example_heap_world ! 0) = ''RGBA'' \<and>
   data (heap example_heap_world ! 0) = Some example_pixels \<and>
   CHR ''/'' \<notin> set ''xxxhdpi'' \<and> CHR ''/'' \<notin> set ''mdpi'' \<and>
   distinct (map fst [(''xxxhdpi'', 192), (''mdpi'', 48::nat)]) \<and>
   fst (icon_loop example_pillow 0 [] [(''xxxhdpi'', 192), (''mdpi'', 48)] example_heap_world) = Inr () \<and>
   heap (snd (icon_loop example_pillow 0 [] [(''xxxhdpi'', 192), (''mdpi'', 48)] example_heap_world)) ! 0 =
     example_big_icon \<and>
   fs (snd (icon_loop example_pillow 0 [] [(''xxxhdpi'', 192), (''mdpi'', 48)] example_heap_world))
      [mipmap ''mdpi'', ''ic_launcher.png''] =
     Some (File (Encoded ''PNG''
       \<lparr>mode = ''RGBA'', size_im = (48, 48),
        data = Some (resize_kernel example_pillow LANCZOS (48, 48) ''RGBA'' (8, 8) example_pixels)\<rparr>) 2)"
proof -
  let ?ds = "[(''xxxhdpi'', 192), (''mdpi'', 48::nat)]"
  have h: "0 < length (heap example_heap_world)" "mode (heap example_heap_world ! 0) = ''RGBA''"
    "data (heap example_heap_world ! 0) = Some example_pixels"
    "heap example_heap_world ! 0 = example_big_icon" "new_stat example_heap_world = 2"
    "size_im example_big_icon = (8, 8)"
    by (simp_all add: example_heap_world_def example_big_icon_def)
  have d: "\<forall>x\<in>set ?ds. CHR ''/'' \<notin> set (fst x)" "distinct (map fst ?ds)" by simp_all
  have wr: "\<forall>x\<in>set ?ds. writable [] (fst x) example_heap_world"
    by (simp add: writable_def is_dir_def lookup_def example_heap_world_def)
  from icon_loop_succeeds [OF wr h(1,2,3) d, of example_pillow]
  have t: "fst (icon_loop example_pillow 0 [] ?ds example_heap_world) = Inr ()" by auto
  show ?thesis
    using round_icon_and_densities_independent
      [of 0 example_heap_world example_pillow 0 example_pixels ?ds "[]"] h t
    by simp
qed

lemma generate_icons_load_fails:
  assumes "case source_file sp w of None \<Rightarrow> True
          | Some im \<Rightarrow> mode im \<noteq> ''RGBA'' \<and> source_pixels P im = None"
  shows "fst (generate_icons P sp out w) = Inr False \<and> fs (snd (generate_icons P sp out w)) = fs w"
proof -
  define w0 where "w0 = print (Loading_source_icon sp) w"
  from assms have "case source_file sp w0 of None \<Rightarrow> True
          | Some im \<Rightarrow> mode im \<noteq> ''RGBA'' \<and> source_pixels P im = None"
    by (simp add: w0_def)
  from load_source_fails [OF this] obtain e w1 where ls: "load_source P sp w0 = (Inl e, w1)"
    by blast
  from load_source_Inl [OF ls] have "fs w1 = fs w" by (simp add: w0_def)
  with ls show ?thesis
    by (simp add: generate_icons_def w0_def [symmetric] Let_def)
qed

lemma main_exit_0:
  assumes "status (fst (main P root w)) = 0"
  shows "fst (generate_icons P (root @ [''assets'', ''icon.png''])
            (root @ [''android'', ''app'', ''src'', ''main'', ''res''])
            (prints [Rule60, Android_Icon_Resource_Generator, Rule60, Blank] w)) = Inr True"
  using assms
  by (auto simp: main_def joinpath_single Let_def split: if_splits prod.splits sum.splits)

lemma icon_loop_first:
  "icon_loop P r out densities w =
     (case icon_body P r out (''mdpi'', 48) w of
        (Inl e, w') \<Rightarrow> (Inl e, w')
      | (Inr u, w') \<Rightarrow>
          icon_loop P r out [(''hdpi'', 72), (''xhdpi'', 96), (''xxhdpi'', 144), (''xxxhdpi'', 192)] w')"
  by (simp add: densities_def)

lemma generate_icons_blocked:
  assumes im: "source_file sp w = Some im" and px: "source_pixels P im = Some px"
    and b: "lookup (fs w) (out @ [mipmap ''mdpi'']) = Some (File c st)"
  shows "fst (generate_icons P sp out w) = Inl FileExistsError"
proof -
  define w0 where "w0 = print (Loading_source_icon sp) w"
  from load_source_ok [OF _ px, of sp w0] im obtain r w1 where
    ls: "load_source P sp w0 = (Inr r, w1)" by (auto simp: w0_def)
  from load_source_Inr [OF ls] have w1: "fs w1 = fs w" by (auto simp: w0_def)
  define w2 where "w2 = print Blank (print (Source_icon_size (size_im (heap w1 ! r))) w1)"
  have "mkdir (out @ [mipmap ''mdpi'']) w2 = Inl FileExistsError"
    using b w1 by (intro mkdir_file [of _ _ c st]) (simp add: w2_def)
  then have "icon_body P r out (''mdpi'', 48) w2 = (Inl FileExistsError, w2)"
    by (simp add: icon_body_def)
  then show ?thesis
    using ls
    by (simp add: generate_icons_def w0_def [symmetric] w2_def [symmetric] Let_def icon_loop_first)
qed

lemma generate_icons_undecodable:
  assumes im: "source_file sp w = Some im" and m: "mode im = ''RGBA''" and d: "data im = None"
    and n: "lookup (fs w) (out @ [mipmap ''mdpi'']) = None" and o: "is_dir out w"
  shows "fst (generate_icons P sp out w) = Inl DecodeError \<and>
    fs (snd (generate_icons P sp out w)) = (fs w)(out @ [mipmap ''mdpi''] \<mapsto> Dir)"
proof -
  define w0 where "w0 = print (Loading_source_icon sp) w"
  from im obtain fmt st where l: "lookup (fs w0) sp = Some (File (Encoded fmt im) st)"
    by (auto simp: source_file_def w0_def split: option.splits node.splits content.splits)
  have ls: "load_source P sp w0 = (Inr (length (heap w0)), w0\<lparr>heap := heap w0 @ [im]\<rparr>)"
    using l m by (simp add: load_source_cases)
  define w2 where "w2 = print Blank (print (Source_icon_size (size_im im)) (w0\<lparr>heap := heap w0 @ [im]\<rparr>))"
  have f2: "fs w2 = fs w" "heap w2 ! length (heap w0) = im"
    by (simp_all add: w2_def w0_def)
  have mk: "mkdir (out @ [mipmap ''mdpi'']) w2 = Inr (w2\<lparr>fs := (fs w2)(out @ [mipmap ''mdpi''] \<mapsto> Dir)\<rparr>)"
    using n o f2 by (intro mkdir_new) (simp_all add: is_dir_def)
  have "icon_body P (length (heap w0)) out (''mdpi'', 48) w2 =
      (Inl DecodeError, w2\<lparr>fs := (fs w2)(out @ [mipmap ''mdpi''] \<mapsto> Dir)\<rparr>)"
    using f2 d by (simp add: icon_body_undecodable mk)
  then show ?thesis
    using ls f2
    by (simp add: generate_icons_def w0_def [symmetric] w2_def [symmetric] Let_def icon_loop_first)
qed

text \<open>
  Claim C5, as stated, fails: "\<open>generate_icons\<close> returns true if and only if the source
  image loaded and decoded successfully". Here the source opens and decodes, but
  \<open>res/mipmap-mdpi\<close> is a regular file: \<open>mkdir\<close> raises \<open>FileExistsError\<close>, nothing
  catches it, and the function returns neither \<open>True\<close> nor \<open>False\<close>.
\<close>

theorem generate_icons_true_iff_loaded_counterexample:
  "source_file [''icon.png''] example_blocked_world = Some example_icon \<and>
   source_pixels example_pillow example_icon = Some example_pixels \<and>
   fst (generate_icons example_pillow [''icon.png''] [''res''] example_blocked_world) =
     Inl FileExistsError \<and>
   fst (generate_icons example_pillow [''icon.png''] [''res''] example_blocked_world) \<noteq> Inr True"
proof -
  have s: "source_file [''icon.png''] example_blocked_world = Some example_icon"
    by (simp add: example_blocked_world_def source_file_def lookup_def)
  have b: "lookup (fs example_blocked_world) ([''res''] @ [mipmap ''mdpi'']) =
      Some (File (Text ''not a directory'') 1)"
    by (simp add: example_blocked_world_def lookup_def mipmap_def)
  from generate_icons_blocked [OF s example_source_pixels(1) b] s example_source_pixels(1)
  show ?thesis by simp
qed

text \<open>
  Claim C5, amended. \<open>generate_icons\<close> returns \<open>True\<close> only if the source image opened
  and its pixel data decoded (and converted, when its mode is not \<open>RGBA\<close>). When opening
  the source, or converting a source that is not \<open>RGBA\<close>, raises, it returns \<open>False\<close>
  and has written nothing. When the source opens and decodes and the output tree accepts
  the icons, it returns \<open>True\<close>. Whenever \<open>generate_icons\<close> does not return \<open>True\<close>
  (it returned \<open>False\<close>, or an exception left it), \<open>main\<close> ends with a non-zero exit
  status.
\<close>

theorem generate_icons_return_value:
  "(fst (generate_icons P sp out w) = Inr True \<longrightarrow>
      (\<exists>im px. source_file sp w = Some im \<and> source_pixels P im = Some px)) \<and>
   ((case source_file sp w of None \<Rightarrow> True
     | Some im \<Rightarrow> mode im \<noteq> ''RGBA'' \<and> source_pixels P im = None) \<longrightarrow>
      fst (generate_icons P sp out w) = Inr False \<and>
      fs (snd (generate_icons P sp out w)) = fs w) \<and>
   ((\<exists>im px. source_file sp w = Some im \<and> source_pixels P im = Some px) \<and>
    (\<forall>x\<in>set densities. writable out (fst x) w) \<longrightarrow>
      fst (generate_icons P sp out w) = Inr True) \<and>
   (fst (generate_icons P (root @ [''assets'', ''icon.png''])
            (root @ [''android'', ''app'', ''src'', ''main'', ''res''])
            (prints [Rule60, Android_Icon_Resource_Generator, Rule60, Blank] v)) \<noteq> Inr True \<longrightarrow>
      status (fst (main P root v)) \<noteq> 0)"
proof (intro conjI impI)
  assume "fst (generate_icons P sp out w) = Inr True"
  then show "\<exists>im px. source_file sp w = Some im \<and> source_pixels P im = Some px"
    by (rule generate_icons_True) blast
next
  assume a: "case source_file sp w of None \<Rightarrow> True
     | Some im \<Rightarrow> mode im \<noteq> ''RGBA'' \<and> source_pixels P im = None"
  from generate_icons_load_fails [OF a]
  show "fst (generate_icons P sp out w) = Inr False"
    and "fs (snd (generate_icons P sp out w)) = fs w" by simp_all
next
  assume "(\<exists>im px. source_file sp w = Some im \<and> source_pixels P im = Some px) \<and>
    (\<forall>x\<in>set densities. writable out (fst x) w)"
  then show "fst (generate_icons P sp out w) = Inr True"
    by (auto intro: generate_icons_succeeds)
next
  assume "fst (generate_icons P (root @ [''assets'', ''icon.png''])
            (root @ [''android'', ''app'', ''src'', ''main'', ''res''])
            (prints [Rule60, Android_Icon_Resource_Generator, Rule60, Blank] v)) \<noteq> Inr True"
  then show "status (fst (main P root v)) \<noteq> 0"
    using main_exit_0 [of P root v] by blast
qed

theorem generate_icons_return_value_witness:
  "(\<exists>im px. source_file [''icon.png''] (example_world example_icon) = Some im \<and>
            source_pixels example_pillow im = Some px) \<and>
   writable [''res''] ''mdpi'' (example_world example_icon) \<and> writable [''res''] ''hdpi'' (example_world example_icon) \<and>
   writable [''res''] ''xhdpi'' (example_world example_icon) \<and> writable [''res''] ''xxhdpi'' (example_world example_icon) \<and>
   writable [''res''] ''xxxhdpi'' (example_world example_icon) \<and>
   fst (generate_icons example_pillow [''icon.png''] [''res''] (example_world example_icon)) = Inr True \<and>
   source_file [''proj'', ''assets'', ''icon.png'']
     (prints [Rule60, Android_Icon_Resource_Generator, Rule60, Blank] example_project_world) = None \<and>
   fst (generate_icons example_pillow ([''proj''] @ [''assets'', ''icon.png''])
          ([''proj''] @ [''android'', ''app'', ''src'', ''main'', ''res''])
          (prints [Rule60, Android_Icon_Resource_Generator, Rule60, Blank] example_project_world)) = Inr False \<and>
   status (fst (main example_pillow [''proj''] example_project_world)) \<noteq> 0"
proof -
  let ?v = "prints [Rule60, Android_Icon_Resource_Generator, Rule60, Blank] example_project_world"
  have 1: "\<exists>im px. source_file [''icon.png''] (example_world example_icon) = Some im \<and>
            source_pixels example_pillow im = Some px"
    using example_world_facts(1) example_source_pixels(1) by blast
  have 2: "source_file [''proj'', ''assets'', ''icon.png''] ?v = None"
    by (simp add: source_file_def lookup_def example_project_world_def)
  note A = generate_icons_return_value
    [of example_pillow "[''icon.png'']" "[''res'']" "example_world example_icon" "[''proj'']"
        example_project_world]
  note B = generate_icons_return_value
    [of example_pillow "[''proj''] @ [''assets'', ''icon.png'']"
        "[''proj''] @ [''android'', ''app'', ''src'', ''main'', ''res'']" ?v "[''proj'']"
        example_project_world]
  from B 2 have 3: "fst (generate_icons example_pillow ([''proj''] @ [''assets'', ''icon.png''])
          ([''proj''] @ [''android'', ''app'', ''src'', ''main'', ''res'']) ?v) = Inr False"
    by simp
  with B have 4: "status (fst (main example_pillow [''proj''] example_project_world)) \<noteq> 0"
    by simp
  from A 1 example_world_facts(2)
  have 5: "fst (generate_icons example_pillow [''icon.png''] [''res''] (example_world example_icon)) = Inr True"
    by blast
  from 1 example_world_facts(2) 5 2 3 4 show ?thesis by (simp add: densities_def)
qed

text \<open>
  Claim C9 at a failing input: "when decoding of the source icon fails, \<open>generate_icons\<close>
  returns false before creating any mipmap directory". The source file below has a valid
  \<open>RGBA\<close> header and a pixel stream that cannot be decoded. \<open>Image.open\<close> succeeds, the
  conversion is skipped because the mode is \<open>RGBA\<close> already, and the first operation to
  decode the pixels is the \<open>resize\<close> of the first iteration, outside the \<open>try\<close> block
  and after \<open>res/mipmap-mdpi\<close> has been created: the exception leaves the function.
\<close>

theorem truncated_rgba_source_escapes:
  "source_file [''icon.png''] (example_world example_truncated_icon) = Some example_truncated_icon \<and>
   mode example_truncated_icon = ''RGBA'' \<and> data example_truncated_icon = None \<and>
   fst (generate_icons example_pillow [''icon.png''] [''res''] (example_world example_truncated_icon)) =
     Inl DecodeError \<and>
   fs (example_world example_truncated_icon) [''res'', ''mipmap-mdpi''] = None \<and>
   fs (snd (generate_icons example_pillow [''icon.png''] [''res''] (example_world example_truncated_icon)))
     [''res'', ''mipmap-mdpi''] = Some Dir"
proof -
  have t: "mode example_truncated_icon = ''RGBA''" "data example_truncated_icon = None"
    by (simp_all add: example_truncated_icon_def)
  have n: "lookup (fs (example_world example_truncated_icon)) ([''res''] @ [mipmap ''mdpi'']) = None"
    "is_dir [''res''] (example_world example_truncated_icon)"
    "fs (example_world example_truncated_icon) [''res'', ''mipmap-mdpi''] = None"
    by (simp_all add: example_world_def lookup_def mipmap_def is_dir_def)
  from generate_icons_undecodable [OF example_world_facts(1) t n(1,2), of example_pillow]
    example_world_facts(1) [of example_truncated_icon] t n(3)
  show ?thesis by (simp add: mipmap_def)
qed

section \<open>Copying the XML resources\<close>

lemma snoc2_eq_snoc1 [simp]:
  "p @ [a, b] = q @ [c] \<longleftrightarrow> p @ [a] = q \<and> b = c"
  "q @ [c] = p @ [a, b] \<longleftrightarrow> p @ [a] = q \<and> b = c"
  using append1_eq_conv [of "p @ [a]" b q c] by auto

lemma snoc2_eq_snoc2 [simp]:
  "p @ [a, b] = q @ [c, d] \<longleftrightarrow> p = q \<and> a = c \<and> b = d"
  by simp

lemma snoc_neq_self [simp]: "p \<noteq> p @ [a]" "p \<noteq> p @ [a, b]" "p @ [a] \<noteq> p" "p @ [a, b] \<noteq> p"
  by simp_all







end
